theory Spec2Isabelle
  imports Main
begin

section \<open>Strings and numbers of the host language\<close>

text \<open>
  The program is TypeScript. A string is modelled as a \<^typ>\<open>string\<close>: a list of code
  units below 256. The helpers of this section model the built-in operations that the
  source calls: \<open>String.prototype.split\<close> with a one-character separator,
  \<open>String.prototype.trim\<close>, \<open>Array.prototype.join\<close>, the conversion \<open>Number(s)\<close> and the
  conversion of a number to a string inside a template literal.
\<close>

fun split_acc :: "char \<Rightarrow> string \<Rightarrow> string \<Rightarrow> string list" where
  "split_acc sep acc [] = [rev acc]"
| "split_acc sep acc (c # cs) =
     (if c = sep then rev acc # split_acc sep [] cs else split_acc sep (c # acc) cs)"

definition split_js :: "char \<Rightarrow> string \<Rightarrow> string list" where
  \<comment> \<open>\<open>s.split(sep)\<close>: never the empty list; \<open>''''.split(sep)\<close> is \<open>['''']\<close>.\<close>
  "split_js sep s = split_acc sep [] s"

fun join_js :: "string \<Rightarrow> string list \<Rightarrow> string" where
  "join_js sep [] = []"
| "join_js sep [x] = x"
| "join_js sep (x # y # ys) = x @ sep @ join_js sep (y # ys)"

definition isWhiteSpace :: "char \<Rightarrow> bool" where
  \<comment> \<open>White space and line terminators below 256: TAB, LF, VT, FF, CR, SP, NBSP.\<close>
  "isWhiteSpace c = (of_char c \<in> {9, 10, 11, 12, 13, 32, 160 :: nat})"

definition trim_js :: "string \<Rightarrow> string" where
  "trim_js s = rev (dropWhile isWhiteSpace (rev (dropWhile isWhiteSpace s)))"

definition isDigit :: "char \<Rightarrow> bool" where
  "isDigit c = (c \<in> set ''0123456789'')"

definition digitVal :: "char \<Rightarrow> nat" where
  "digitVal c =
     (if isDigit c then of_char c - 48
      else if c \<in> set ''abcdef'' then of_char c - 87
      else if c \<in> set ''ABCDEF'' then of_char c - 55
      else 0)"

definition isRadixDigit :: "nat \<Rightarrow> char \<Rightarrow> bool" where
  "isRadixDigit r c = ((isDigit c \<or> c \<in> set ''abcdefABCDEF'') \<and> digitVal c < r)"

definition radix_val :: "nat \<Rightarrow> string \<Rightarrow> nat" where
  "radix_val r ds = foldl (\<lambda>a c. r * a + digitVal c) 0 ds"

definition digitChar :: "nat \<Rightarrow> char" where
  "digitChar d =
     (if d = 0 then CHR ''0'' else if d = 1 then CHR ''1'' else if d = 2 then CHR ''2''
      else if d = 3 then CHR ''3'' else if d = 4 then CHR ''4'' else if d = 5 then CHR ''5''
      else if d = 6 then CHR ''6'' else if d = 7 then CHR ''7'' else if d = 8 then CHR ''8''
      else CHR ''9'')"

fun show_nat :: "nat \<Rightarrow> string" where
  "show_nat n = (if n < 10 then [digitChar n] else show_nat (n div 10) @ [digitChar (n mod 10)])"

declare show_nat.simps [simp del]

definition show_int :: "int \<Rightarrow> string" where
  "show_int i = (if i < 0 then CHR ''-'' # show_nat (nat (- i)) else show_nat (nat i))"

text \<open>
  A Number of the host language is a double. The model tracks the values on which a double
  is exact: \<open>Num n\<close> is the integer \<open>n\<close>, with \<open>\<bar>n\<bar> \<le> 2^53\<close> (the two zeros are both
  \<open>Num 0\<close>; they print alike). \<open>NaN\<close> is the not-a-number value. \<open>Other\<close> stands for
  every other Number (a fraction, an integer beyond \<open>2^53\<close>, an infinity): it is known not
  to be \<open>NaN\<close>, and neither its arithmetic nor its digits are modelled.
\<close>

datatype jsnum = NaN | Num int | Other

definition isNaN :: "jsnum \<Rightarrow> bool" where
  "isNaN x = (x = NaN)"

definition maxExact :: int where
  "maxExact = 2 ^ 53"

definition track :: "int \<Rightarrow> jsnum" where
  "track v = (if \<bar>v\<bar> \<le> maxExact then Num v else Other)"

definition strip_sign :: "string \<Rightarrow> int \<times> string" where
  "strip_sign s =
     (case s of
        c # cs \<Rightarrow> if c = CHR ''-'' then (- 1, cs) else if c = CHR ''+'' then (1, cs) else (1, s)
      | [] \<Rightarrow> (1, s))"

definition decimal_literal :: "string \<Rightarrow> (string \<times> string \<times> int) option" where
  \<comment> \<open>An unsigned decimal literal other than \<open>Infinity\<close>: integer digits, fraction digits
      and the exponent; \<open>None\<close> when the string is no such literal.\<close>
  "decimal_literal u =
     (let ip = takeWhile isDigit u;
          r1 = dropWhile isDigit u;
          dot = (r1 \<noteq> [] \<and> hd r1 = CHR ''.'');
          fp = (if dot then takeWhile isDigit (tl r1) else []);
          r2 = (if dot then dropWhile isDigit (tl r1) else r1)
      in if ip = [] \<and> fp = [] then None
         else if r2 = [] then Some (ip, fp, 0)
         else if hd r2 = CHR ''e'' \<or> hd r2 = CHR ''E'' then
           (let (sg, ed) = strip_sign (tl r2)
            in if ed \<noteq> [] \<and> list_all isDigit ed
               then Some (ip, fp, sg * int (radix_val 10 ed)) else None)
         else None)"

definition decimal_value :: "string \<Rightarrow> string \<Rightarrow> int \<Rightarrow> int option" where
  \<comment> \<open>The value of \<open>ip.fp\<close> times ten to the \<open>e\<close> when it is an integer.\<close>
  "decimal_value ip fp e =
     (let m = int (radix_val 10 (ip @ fp)); x = e - int (length fp)
      in if m = 0 then Some 0
         else if 0 \<le> x then Some (m * 10 ^ nat x)
         else if 10 ^ nat (- x) dvd m then Some (m div 10 ^ nat (- x))
         else None)"

definition radix_literal :: "string \<Rightarrow> (nat \<times> string) option" where
  \<comment> \<open>The prefixes \<open>0x\<close>, \<open>0o\<close>, \<open>0b\<close> (either case) of a non-decimal integer literal.\<close>
  "radix_literal t =
     (case t of
        c # d # body \<Rightarrow>
          if c \<noteq> CHR ''0'' then None
          else if d = CHR ''x'' \<or> d = CHR ''X'' then Some (16, body)
          else if d = CHR ''o'' \<or> d = CHR ''O'' then Some (8, body)
          else if d = CHR ''b'' \<or> d = CHR ''B'' then Some (2, body)
          else None
      | _ \<Rightarrow> None)"

definition Number_js :: "string \<Rightarrow> jsnum" where
  \<comment> \<open>\<open>Number(s)\<close> on a string: surrounding white space is dropped, the empty string is 0,
      a non-decimal literal takes no sign, anything that is no numeric literal is \<open>NaN\<close>.\<close>
  "Number_js s =
     (let t = trim_js s
      in if t = [] then Num 0
         else case radix_literal t of
           Some (r, body) \<Rightarrow>
             if body \<noteq> [] \<and> list_all (isRadixDigit r) body
             then track (int (radix_val r body)) else NaN
         | None \<Rightarrow>
             (let (sg, u) = strip_sign t
              in if u = ''Infinity'' then Other
                 else case decimal_literal u of
                   None \<Rightarrow> NaN
                 | Some (ip, fp, e) \<Rightarrow>
                     (case decimal_value ip fp e of
                        None \<Rightarrow> Other
                      | Some v \<Rightarrow> track (sg * v))))"

definition plus1 :: "jsnum \<Rightarrow> jsnum" where
  \<comment> \<open>\<open>x + 1\<close> on a double: \<open>2^53 + 1\<close> is not a double and rounds back to \<open>2^53\<close>.\<close>
  "plus1 x =
     (case x of
        NaN \<Rightarrow> NaN
      | Num n \<Rightarrow> if n = maxExact then Num n else Num (n + 1)
      | Other \<Rightarrow> Other)"

definition toString_num :: "jsnum \<Rightarrow> string option" where
  \<comment> \<open>The digits of a number in a template literal; \<open>None\<close> where they are not modelled.\<close>
  "toString_num x =
     (case x of NaN \<Rightarrow> Some ''NaN'' | Num n \<Rightarrow> Some (show_int n) | Other \<Rightarrow> None)"


section \<open>Errors\<close>

text \<open>
  Every exception of the source is \<open>new Error(message)\<close>; the model keeps the message.
  \<open>TypeError\<close> and \<open>SyntaxError\<close> are the exceptions that the runtime itself raises.
  \<open>OutsideModel\<close> is no exception of the program: it marks a run that reaches a value the
  model does not track (the digits of an \<open>Other\<close> number, a number literal of a document
  that is no exact integer, a code unit above 255).
\<close>

datatype error = Error string | TypeError | SyntaxError | OutsideModel

definition InvalidVersionFormat :: "string \<Rightarrow> error" where
  "InvalidVersionFormat currentVersion =
     Error (''Invalid version format: '' @ currentVersion
            @ ''. Expected semantic version (e.g., 1.2.3)'')"


section \<open>index.ts: calculateNewVersion\<close>

datatype BumpType = Major | Minor | Patch

definition template :: "string option list \<Rightarrow> error + string" where
  \<comment> \<open>The concatenation of the pieces of a template literal.\<close>
  "template ps = (if None \<in> set ps then Inl OutsideModel else Inr (concat (map the ps)))"

definition calculateNewVersion :: "string \<Rightarrow> BumpType \<Rightarrow> error + string" where
  "calculateNewVersion currentVersion bumpType =
     (let parts = map Number_js (split_js CHR ''.'' currentVersion)
      in if length parts \<noteq> 3 \<or> list_ex isNaN parts
         then Inl (InvalidVersionFormat currentVersion)
         else
           (let major = parts ! 0; minor = parts ! 1; patch = parts ! 2
            in case bumpType of
                 Major \<Rightarrow> template [toString_num (plus1 major), Some ''.0.0'']
               | Minor \<Rightarrow>
                   template [toString_num major, Some ''.'', toString_num (plus1 minor),
                             Some ''.0'']
               | Patch \<Rightarrow>
                   template [toString_num major, Some ''.'', toString_num minor, Some ''.'',
                             toString_num (plus1 patch)]))"

definition version_string :: "nat \<Rightarrow> nat \<Rightarrow> nat \<Rightarrow> string" where
  \<comment> \<open>The text \<open>X.Y.Z\<close> of three non-negative integers in decimal.\<close>
  "version_string X Y Z = show_nat X @ ''.'' @ show_nat Y @ ''.'' @ show_nat Z"


section \<open>JSON documents\<close>

datatype json =
  JNull | JBool bool | JNumber int | JString string | JArray "json list"
  | JObject "(string \<times> json) list"

definition dquote :: char where "dquote = CHR 0x22"
definition backslash :: char where "backslash = CHR 0x5C"
definition newline :: char where "newline = CHR 0x0A"

fun truthy :: "json \<Rightarrow> bool" where
  "truthy JNull = False"
| "truthy (JBool b) = b"
| "truthy (JNumber n) = (n \<noteq> 0)"
| "truthy (JString s) = (s \<noteq> [])"
| "truthy (JArray xs) = True"
| "truthy (JObject kvs) = True"

definition is_index :: "string \<Rightarrow> bool" where
  "is_index k =
     (k \<noteq> [] \<and> list_all isDigit k \<and> (k = ''0'' \<or> hd k \<noteq> CHR ''0'')
      \<and> radix_val 10 k < 2 ^ 32 - 1)"

fun insert_index :: "string \<Rightarrow> json \<Rightarrow> (string \<times> json) list \<Rightarrow> (string \<times> json) list" where
  "insert_index k v [] = [(k, v)]"
| "insert_index k v ((k', v') # kvs) =
     (if is_index k' \<and> radix_val 10 k' < radix_val 10 k
      then (k', v') # insert_index k v kvs
      else (k, v) # (k', v') # kvs)"

definition obj_put :: "(string \<times> json) list \<Rightarrow> string \<Rightarrow> json \<Rightarrow> (string \<times> json) list" where
  "obj_put kvs k v =
     (if k \<in> fst ` set kvs then map (\<lambda>(k', v'). if k' = k then (k', v) else (k', v')) kvs
      else if is_index k then insert_index k v kvs
      else kvs @ [(k, v)])"

definition hexChar :: "nat \<Rightarrow> char" where
  "hexChar d =
     (if d < 10 then digitChar d else if d = 10 then CHR ''a'' else if d = 11 then CHR ''b''
      else if d = 12 then CHR ''c'' else if d = 13 then CHR ''d'' else if d = 14 then CHR ''e''
      else CHR ''f'')"

definition quote_char :: "char \<Rightarrow> string" where
  "quote_char c =
     (if c = CHR 0x08 then [backslash, CHR ''b'']
      else if c = CHR 0x09 then [backslash, CHR ''t'']
      else if c = CHR 0x0A then [backslash, CHR ''n'']
      else if c = CHR 0x0C then [backslash, CHR ''f'']
      else if c = CHR 0x0D then [backslash, CHR ''r'']
      else if c = dquote then [backslash, dquote]
      else if c = backslash then [backslash, backslash]
      else if (of_char c :: nat) < 32
        then [backslash, CHR ''u'', CHR ''0'', CHR ''0'', hexChar (of_char c div 16),
              hexChar (of_char c mod 16)]
      else [c])"

definition QuoteJSONString :: "string \<Rightarrow> string" where
  "QuoteJSONString s = dquote # concat (map quote_char s) @ [dquote]"

fun ser :: "string \<Rightarrow> json \<Rightarrow> string" where
  "ser ind JNull = ''null''"
| "ser ind (JBool b) = (if b then ''true'' else ''false'')"
| "ser ind (JNumber n) = show_int n"
| "ser ind (JString s) = QuoteJSONString s"
| "ser ind (JArray xs) =
     (if xs = [] then ''[]''
      else CHR ''['' # newline # ind @ ''  ''
           @ join_js (CHR '','' # newline # ind @ ''  '') (map (ser (ind @ ''  '')) xs)
           @ newline # ind @ '']'')"
| "ser ind (JObject kvs) =
     (if kvs = [] then ''{}''
      else CHR ''{'' # newline # ind @ ''  ''
           @ join_js (CHR '','' # newline # ind @ ''  '')
               (map (\<lambda>(k, v). QuoteJSONString k @ '': '' @ ser (ind @ ''  '') v) kvs)
           @ newline # ind @ ''}'')"

definition JSON_stringify :: "json \<Rightarrow> string" where
  "JSON_stringify v = ser [] v"


datatype token =
  LBrace | RBrace | LBracket | RBracket | Colon | Comma
  | TStr string | TNum int | TTrue | TFalse | TNull

definition consE :: "'a \<Rightarrow> error + 'a list \<Rightarrow> error + 'a list" where
  "consE x r = (case r of Inl e \<Rightarrow> Inl e | Inr xs \<Rightarrow> Inr (x # xs))"

definition unescape :: "char \<Rightarrow> char option" where
  "unescape e =
     (if e = dquote then Some dquote
      else if e = backslash then Some backslash
      else if e = CHR ''/'' then Some CHR ''/''
      else if e = CHR ''b'' then Some (CHR 0x08)
      else if e = CHR ''f'' then Some (CHR 0x0C)
      else if e = CHR ''n'' then Some (CHR 0x0A)
      else if e = CHR ''r'' then Some (CHR 0x0D)
      else if e = CHR ''t'' then Some (CHR 0x09)
      else None)"

fun scan_string :: "string \<Rightarrow> error + (string \<times> string)" where
  "scan_string [] = Inl SyntaxError"
| "scan_string (c # cs) =
     (if c = dquote then Inr ([], cs)
      else if c = backslash then
        (case cs of
           [] \<Rightarrow> Inl SyntaxError
         | e # r \<Rightarrow>
             if e = CHR ''u'' then
               (case r of
                  h1 # h2 # h3 # h4 # r' \<Rightarrow>
                    if list_all (isRadixDigit 16) [h1, h2, h3, h4] then
                      (if radix_val 16 [h1, h2, h3, h4] < 256 then
                         (case scan_string r' of
                            Inl err \<Rightarrow> Inl err
                          | Inr (s, rest) \<Rightarrow>
                              Inr (char_of (radix_val 16 [h1, h2, h3, h4]) # s, rest))
                       else Inl OutsideModel)
                    else Inl SyntaxError
                | _ \<Rightarrow> Inl SyntaxError)
             else
               (case unescape e of
                  None \<Rightarrow> Inl SyntaxError
                | Some x \<Rightarrow>
                    (case scan_string r of
                       Inl err \<Rightarrow> Inl err
                     | Inr (s, rest) \<Rightarrow> Inr (x # s, rest))))
      else if (of_char c :: nat) < 32 then Inl SyntaxError
      else
        (case scan_string cs of
           Inl err \<Rightarrow> Inl err
         | Inr (s, rest) \<Rightarrow> Inr (c # s, rest)))"

definition json_number :: "string \<Rightarrow> error + int" where
  "json_number lit =
     (let (sg, u) = (if lit \<noteq> [] \<and> hd lit = CHR ''-'' then (- 1, tl lit) else (1 :: int, lit))
      in case decimal_literal u of
           None \<Rightarrow> Inl SyntaxError
         | Some (ip, fp, e) \<Rightarrow>
             if ip = [] \<or> (1 < length ip \<and> hd ip = CHR ''0'') \<or> (CHR ''.'' \<in> set u \<and> fp = [])
             then Inl SyntaxError
             else
               (case decimal_value ip fp e of
                  None \<Rightarrow> Inl OutsideModel
                | Some v \<Rightarrow> if v \<le> maxExact then Inr (sg * v) else Inl OutsideModel))"

definition isNumChar :: "char \<Rightarrow> bool" where
  "isNumChar c = (isDigit c \<or> c \<in> set ''+-.eE'')"

definition isJsonSpace :: "char \<Rightarrow> bool" where
  "isJsonSpace c = (c = CHR '' '' \<or> c = CHR 0x09 \<or> c = CHR 0x0A \<or> c = CHR 0x0D)"

definition lex_token :: "char \<Rightarrow> string \<Rightarrow> error + (token \<times> string)" where
  \<comment> \<open>The token that starts with the character \<open>c\<close> (no white space), and the text after it.\<close>
  "lex_token c cs =
     (if c = CHR ''{'' then Inr (LBrace, cs)
      else if c = CHR ''}'' then Inr (RBrace, cs)
      else if c = CHR ''['' then Inr (LBracket, cs)
      else if c = CHR '']'' then Inr (RBracket, cs)
      else if c = CHR '':'' then Inr (Colon, cs)
      else if c = CHR '','' then Inr (Comma, cs)
      else if c = dquote then
        (case scan_string cs of
           Inl e \<Rightarrow> Inl e
         | Inr (s, rest) \<Rightarrow> Inr (TStr s, rest))
      else if c = CHR ''-'' \<or> isDigit c then
        (case json_number (c # takeWhile isNumChar cs) of
           Inl e \<Rightarrow> Inl e
         | Inr n \<Rightarrow> Inr (TNum n, dropWhile isNumChar cs))
      else if take 4 (c # cs) = ''true'' then Inr (TTrue, drop 3 cs)
      else if take 5 (c # cs) = ''false'' then Inr (TFalse, drop 4 cs)
      else if take 4 (c # cs) = ''null'' then Inr (TNull, drop 3 cs)
      else Inl SyntaxError)"

function lex :: "string \<Rightarrow> error + token list" where
  "lex [] = Inr []"
| "lex (c # cs) =
     (if isJsonSpace c then lex cs
      else case lex_token c cs of
        Inl e \<Rightarrow> Inl e
      | Inr (t, rest) \<Rightarrow>
          if length rest \<le> length cs then consE t (lex rest) else Inl SyntaxError)"
  by pat_completeness auto
termination
  by (relation "measure length") auto

function parse_value :: "token list \<Rightarrow> (json \<times> token list) option"
  and parse_elems :: "json list \<Rightarrow> token list \<Rightarrow> (json \<times> token list) option"
  and parse_members :: "(string \<times> json) list \<Rightarrow> token list \<Rightarrow> (json \<times> token list) option"
where
  "parse_value ts =
     (case ts of
        [] \<Rightarrow> None
      | t # r \<Rightarrow>
          (case t of
             TNull \<Rightarrow> Some (JNull, r)
           | TTrue \<Rightarrow> Some (JBool True, r)
           | TFalse \<Rightarrow> Some (JBool False, r)
           | TNum n \<Rightarrow> Some (JNumber n, r)
           | TStr s \<Rightarrow> Some (JString s, r)
           | LBracket \<Rightarrow>
               (case r of RBracket # r' \<Rightarrow> Some (JArray [], r') | _ \<Rightarrow> parse_elems [] r)
           | LBrace \<Rightarrow>
               (case r of RBrace # r' \<Rightarrow> Some (JObject [], r') | _ \<Rightarrow> parse_members [] r)
           | _ \<Rightarrow> None))"
| "parse_elems acc ts =
     (case parse_value ts of
        None \<Rightarrow> None
      | Some (v, r) \<Rightarrow>
          if length r < length ts then
            (case r of
               Comma # r' \<Rightarrow> parse_elems (acc @ [v]) r'
             | RBracket # r' \<Rightarrow> Some (JArray (acc @ [v]), r')
             | _ \<Rightarrow> None)
          else None)"
| "parse_members acc ts =
     (case ts of
        TStr k # Colon # r \<Rightarrow>
          (case parse_value r of
             None \<Rightarrow> None
           | Some (v, r1) \<Rightarrow>
               if length r1 < length r then
                 (case r1 of
                    Comma # r' \<Rightarrow> parse_members (obj_put acc k v) r'
                  | RBrace # r' \<Rightarrow> Some (JObject (obj_put acc k v), r')
                  | _ \<Rightarrow> None)
               else None)
      | _ \<Rightarrow> None)"
  by pat_completeness auto
termination
  by (relation "measure (\<lambda>x. case x of
          Inl ts \<Rightarrow> 2 * length ts + 1
        | Inr (Inl (acc, ts)) \<Rightarrow> 2 * length ts + 2
        | Inr (Inr (acc, ts)) \<Rightarrow> 2 * length ts)")
     auto

definition JSON_parse :: "string \<Rightarrow> error + json" where
  "JSON_parse s =
     (case lex s of
        Inl e \<Rightarrow> Inl e
      | Inr ts \<Rightarrow>
          (case parse_value ts of
             Some (v, []) \<Rightarrow> Inr v
           | _ \<Rightarrow> Inl SyntaxError))"


section \<open>The world of a run\<close>

text \<open>
  The program reads and writes files, runs the version-control tool and prints lines. A
  world holds the working directory, the files (by path, as text), the state \<open>repo\<close> of
  the repository (of any type), the commands that were run so far with their outcomes,
  and the lines printed to the console and to the error stream.

  The version-control tool is a parameter \<open>G\<close>: given the arguments, the repository and
  the files, it returns the outcome (\<open>Inl\<close> the message of a failed command, \<open>Inr\<close> the
  standard output of a successful one) and the new repository and files.
\<close>

type_synonym fs = "string \<rightharpoonup> string"

type_synonym outcome = "string + string"

type_synonym 'r git = "string list \<Rightarrow> 'r \<Rightarrow> fs \<Rightarrow> outcome \<times> 'r \<times> fs"

record 'r world =
  cwd :: string
  files :: fs
  repo :: 'r
  issued :: "(string list \<times> outcome) list"
  console :: "string list"
  errout :: "string list"

type_synonym ('a, 'r) io = "'r world \<Rightarrow> (error + 'a) \<times> 'r world"

definition await :: "('a, 'r) io \<Rightarrow> ('a \<Rightarrow> ('b, 'r) io) \<Rightarrow> ('b, 'r) io" where
  \<comment> \<open>Run \<open>m\<close>; an exception ends the computation, a result goes on to \<open>f\<close>.\<close>
  "await m f w = (case m w of (Inl e, w') \<Rightarrow> (Inl e, w') | (Inr x, w') \<Rightarrow> f x w')"

definition return :: "'a \<Rightarrow> ('a, 'r) io" where
  "return x w = (Inr x, w)"

definition throw :: "error \<Rightarrow> ('a, 'r) io" where
  "throw e w = (Inl e, w)"

definition pure :: "error + 'a \<Rightarrow> ('a, 'r) io" where
  \<comment> \<open>A computation that does not touch the world.\<close>
  "pure r w = (r, w)"

definition reading :: "('r world \<Rightarrow> error + 'a) \<Rightarrow> ('a, 'r) io" where
  \<comment> \<open>A computation that reads the world and leaves it as it is.\<close>
  "reading f w = (f w, w)"

definition console_log :: "string \<Rightarrow> (unit, 'r) io" where
  "console_log line w = (Inr (), w\<lparr>console := console w @ [line]\<rparr>)"

definition console_warn :: "string \<Rightarrow> (unit, 'r) io" where
  "console_warn line w = (Inr (), w\<lparr>errout := errout w @ [line]\<rparr>)"

fun norm_segments :: "bool \<Rightarrow> string list \<Rightarrow> string list \<Rightarrow> string list" where
  \<comment> \<open>The segments of a normalised path; \<open>st\<close> holds the segments kept so far, the last
      one first. An empty segment and \<open>.\<close> are dropped; \<open>..\<close> removes the segment before it,
      and stays only in a relative path that has no segment left to remove.\<close>
  "norm_segments up st [] = rev st"
| "norm_segments up st (s # ss) =
     (if s = [] \<or> s = ''.'' then norm_segments up st ss
      else if s = ''..'' then
        (case st of
           t # st' \<Rightarrow>
             if t \<noteq> ''..'' then norm_segments up st' ss
             else if up then norm_segments up (''..'' # st) ss
             else norm_segments up st ss
         | [] \<Rightarrow>
             if up then norm_segments up [''..''] ss else norm_segments up [] ss)
      else norm_segments up (s # st) ss)"

definition normalize :: "string \<Rightarrow> string" where
  \<comment> \<open>\<open>path.normalize\<close> of the POSIX flavour.\<close>
  "normalize p =
     (if p = [] then ''.''
      else
        (let isAbsolute = (hd p = CHR ''/'');
             trailingSeparator = (last p = CHR ''/'');
             body = join_js ''/'' (norm_segments (\<not> isAbsolute) [] (split_js CHR ''/'' p))
         in if body = [] then (if isAbsolute then ''/'' else if trailingSeparator then ''./'' else ''.'')
            else (if isAbsolute then ''/'' else [])
                 @ body @ (if trailingSeparator then ''/'' else [])))"

definition join_path :: "string \<Rightarrow> string \<Rightarrow> string" where
  \<comment> \<open>\<open>path.join(dir, file)\<close>: the arguments that are not empty, joined by a slash and
      normalised.\<close>
  "join_path dir file =
     (if dir = [] \<and> file = [] then ''.''
      else normalize (if dir = [] then file else if file = [] then dir else dir @ ''/'' @ file))"


section \<open>index.ts: the manifest\<close>

definition version_of :: "json \<Rightarrow> error + json option" where
  \<comment> \<open>\<open>packageJson.version\<close>: \<open>None\<close> is \<open>undefined\<close>; reading a property of \<open>null\<close> throws.\<close>
  "version_of packageJson =
     (case packageJson of
        JNull \<Rightarrow> Inl TypeError
      | JObject kvs \<Rightarrow> Inr (map_of kvs ''version'')
      | _ \<Rightarrow> Inr None)"

definition set_version :: "json \<Rightarrow> string \<Rightarrow> error + json" where
  \<comment> \<open>\<open>packageJson.version = newVersion\<close> in a module (strict mode): it throws on \<open>null\<close>
      and on a primitive; on an array it sets a property that is no element.\<close>
  "set_version packageJson newVersion =
     (case packageJson of
        JObject kvs \<Rightarrow> Inr (JObject (obj_put kvs ''version'' (JString newVersion)))
      | JArray xs \<Rightarrow> Inr (JArray xs)
      | _ \<Rightarrow> Inl TypeError)"

definition getCurrentVersion :: "string \<Rightarrow> 'r world \<Rightarrow> error + json" where
  "getCurrentVersion packageFile w =
     (let packagePath = join_path (cwd w) packageFile
      in case files w packagePath of
           None \<Rightarrow> Inl (Error (''Package file not found: '' @ packagePath))
         | Some content \<Rightarrow>
             (case JSON_parse content of
                Inl e \<Rightarrow> Inl e
              | Inr packageJson \<Rightarrow>
                  (case version_of packageJson of
                     Inl e \<Rightarrow> Inl e
                   | Inr None \<Rightarrow> Inl (Error ''No version field found in package.json'')
                   | Inr (Some version) \<Rightarrow>
                       if \<not> truthy version
                       then Inl (Error ''No version field found in package.json'')
                       else Inr version)))"

definition updatePackageVersion :: "string \<Rightarrow> string \<Rightarrow> (unit, 'r) io" where
  "updatePackageVersion newVersion packageFile w =
     (let packagePath = join_path (cwd w) packageFile
      in case files w packagePath of
           None \<Rightarrow>
             (Inl (Error (''ENOENT: no such file or directory, open '' @ [CHR 0x27]
                          @ packagePath @ [CHR 0x27])), w)
         | Some content \<Rightarrow>
             (case JSON_parse content of
                Inl e \<Rightarrow> (Inl e, w)
              | Inr packageJson \<Rightarrow>
                  (case set_version packageJson newVersion of
                     Inl e \<Rightarrow> (Inl e, w)
                   | Inr doc \<Rightarrow>
                       (Inr (),
                        w\<lparr>files := (files w)(packagePath \<mapsto> JSON_stringify doc @ [newline])\<rparr>))))"


section \<open>index.ts: the version-control commands\<close>

definition git_failure :: "string list \<Rightarrow> string \<Rightarrow> error" where
  "git_failure args msg =
     Error (''Git command failed: git '' @ join_js '' '' args @ [newline] @ msg)"

definition execGit :: "'r git \<Rightarrow> string list \<Rightarrow> (string, 'r) io" where
  "execGit G args w =
     (case G args (repo w) (files w) of
        (out, r', f') \<Rightarrow>
          (case out of
             Inr stdout \<Rightarrow> Inr (trim_js stdout)
           | Inl msg \<Rightarrow> Inl (git_failure args msg),
           w\<lparr>repo := r', files := f', issued := issued w @ [(args, out)]\<rparr>))"

definition isGitRepository :: "'r git \<Rightarrow> (bool, 'r) io" where
  "isGitRepository G w =
     (case execGit G [''rev-parse'', ''--git-dir''] w of
        (Inr _, w') \<Rightarrow> (Inr True, w')
      | (Inl _, w') \<Rightarrow> (Inr False, w'))"

definition getCurrentBranch :: "'r git \<Rightarrow> (string, 'r) io" where
  "getCurrentBranch G = execGit G [''branch'', ''--show-current'']"


section \<open>index.ts: bumpVersion\<close>

record Branches =
  source :: "string option"
  targets :: "string list option"

record BumpOptions =
  bumpType :: BumpType
  branches :: "Branches option"
  commitMessage :: "string option"
  skipPush :: "bool option"
  skipMerge :: "bool option"
  packageFile :: "string option"
  dryRun :: "bool option"
  createTag :: "bool option"
  tagPrefix :: "string option"

record VersionInfo =
  oldVersion :: string
  newVersion :: string

definition orElse :: "'a option \<Rightarrow> 'a \<Rightarrow> 'a" where
  \<comment> \<open>The default of a destructured field: it applies to \<open>undefined\<close> only.\<close>
  "orElse x d = (case x of None \<Rightarrow> d | Some v \<Rightarrow> v)"

definition truthy_str :: "string option \<Rightarrow> bool" where
  \<comment> \<open>A string in a condition: \<open>undefined\<close> and the empty string are falsy.\<close>
  "truthy_str x = (case x of None \<Rightarrow> False | Some s \<Rightarrow> s \<noteq> [])"

fun mergeTargets :: "'r git \<Rightarrow> string \<Rightarrow> bool \<Rightarrow> string list \<Rightarrow> (unit, 'r) io" where
  "mergeTargets G sourceBranch skipPush' [] = return ()"
| "mergeTargets G sourceBranch skipPush' (targetBranch # rest) =
     await (console_log (''Switching to '' @ targetBranch @ ''...'')) (\<lambda>_.
     await (execGit G [''switch'', targetBranch]) (\<lambda>_.
     await (execGit G [''pull'']) (\<lambda>_.
     await (console_log (''Merging '' @ sourceBranch @ '' into '' @ targetBranch @ ''...'')) (\<lambda>_.
     await (execGit G [''pull'', ''origin'', sourceBranch]) (\<lambda>_.
     await (if \<not> skipPush'
            then await (console_log (''Pushing to '' @ targetBranch @ ''...'')) (\<lambda>_.
                 await (execGit G [''push'', ''origin'', targetBranch]) (\<lambda>_. return ()))
            else return ()) (\<lambda>_.
     mergeTargets G sourceBranch skipPush' rest))))))"

text \<open>
  The body of \<open>bumpVersion\<close> is one sequence of statements. The model splits it at the
  test of \<open>dryRun\<close>: \<open>reportPlan\<close> is the branch of a dry run, \<open>runSteps\<close> is the rest of
  the function. The pictographs that start the console lines, and the arrow of the line
  about the update, are not code units below 256; the model leaves the pictographs out
  and writes the arrow as \<open>->\<close>.
\<close>

definition sourceBranchOf :: "Branches \<Rightarrow> string" where
  \<comment> \<open>\<open>branches.source || 'develop'\<close>\<close>
  "sourceBranchOf b = (if truthy_str (source b) then the (source b) else ''develop'')"

definition messageOf :: "string option \<Rightarrow> string \<Rightarrow> string" where
  \<comment> \<open>\<open>commitMessage || `build: ${newVersion}`\<close>\<close>
  "messageOf commitMessage' newVersion' =
     (if truthy_str commitMessage' then the commitMessage' else ''build: '' @ newVersion')"

definition reportPlan ::
  "Branches \<Rightarrow> bool \<Rightarrow> string \<Rightarrow> string \<Rightarrow> string \<Rightarrow> (VersionInfo, 'r) io" where
  "reportPlan branches' createTag' tagPrefix' currentVersion newVersion' =
     await (console_log ''Dry run mode enabled'') (\<lambda>_.
     await (console_log (''Current version: '' @ currentVersion)) (\<lambda>_.
     await (console_log (''New version: '' @ newVersion')) (\<lambda>_.
     await (console_log (''Source branch: '' @ orElse (source branches') ''undefined'')) (\<lambda>_.
     await (console_log (''Target branches: ''
              @ (if join_js '', '' (orElse (targets branches') []) = [] then ''none''
                 else join_js '', '' (orElse (targets branches') [])))) (\<lambda>_.
     await (console_log (''Create tag: ''
              @ (if createTag' then tagPrefix' @ newVersion' else ''no''))) (\<lambda>_.
     return \<lparr>oldVersion = currentVersion, newVersion = newVersion'\<rparr>))))))"

definition runSteps ::
  "'r git \<Rightarrow> Branches \<Rightarrow> string option \<Rightarrow> bool \<Rightarrow> bool \<Rightarrow> string \<Rightarrow> bool \<Rightarrow> string
     \<Rightarrow> string \<Rightarrow> string \<Rightarrow> (VersionInfo, 'r) io" where
  "runSteps G branches' commitMessage' skipPush' skipMerge' packageFile' createTag' tagPrefix'
       currentVersion newVersion' =
     await (console_log ''Fetching latest changes...'') (\<lambda>_.
     await (execGit G [''fetch'']) (\<lambda>_.
     await (console_log (''Switching to '' @ sourceBranchOf branches' @ ''...'')) (\<lambda>_.
     await (execGit G [''switch'', sourceBranchOf branches']) (\<lambda>_.
     await (execGit G [''pull'']) (\<lambda>_.
     await (console_log (''Updating version: '' @ currentVersion @ '' -> '' @ newVersion'))
       (\<lambda>_.
     await (updatePackageVersion newVersion' packageFile') (\<lambda>_.
     await (console_log (''Committing changes: '' @ messageOf commitMessage' newVersion'))
       (\<lambda>_.
     await (execGit G [''add'', packageFile']) (\<lambda>_.
     await (execGit G [''commit'', ''-m'', messageOf commitMessage' newVersion']) (\<lambda>_.
     await (if createTag'
            then await (console_log (''Creating tag: '' @ tagPrefix' @ newVersion')) (\<lambda>_.
                 await (execGit G [''tag'', tagPrefix' @ newVersion']) (\<lambda>_. return ()))
            else return ()) (\<lambda>_.
     await (if \<not> skipPush'
            then await (console_log (''Pushing to '' @ sourceBranchOf branches' @ ''...'')) (\<lambda>_.
                 await (execGit G [''push'', ''origin'', sourceBranchOf branches']) (\<lambda>_.
                 if createTag'
                 then await (console_log ''Pushing tags...'') (\<lambda>_.
                      await (execGit G [''push'', ''origin'', ''--tags'']) (\<lambda>_. return ()))
                 else return ()))
            else return ()) (\<lambda>_.
     await (if \<not> skipMerge' \<and> targets branches' \<noteq> None \<and> the (targets branches') \<noteq> []
            then await (mergeTargets G (sourceBranchOf branches') skipPush'
                          (the (targets branches'))) (\<lambda>_.
                 await (console_log (''Switching back to '' @ sourceBranchOf branches' @ ''...''))
                   (\<lambda>_.
                 await (execGit G [''switch'', sourceBranchOf branches']) (\<lambda>_. return ())))
            else return ()) (\<lambda>_.
     await (console_log (''Version bumped successfully: '' @ newVersion')) (\<lambda>_.
     return \<lparr>oldVersion = currentVersion, newVersion = newVersion'\<rparr>))))))))))))))"

definition bumpVersion :: "'r git \<Rightarrow> BumpOptions \<Rightarrow> (VersionInfo, 'r) io" where
  "bumpVersion G options =
     (let branches' =
            orElse (branches options) \<lparr>source = Some ''develop'', targets = Some [''UAT'']\<rparr>;
          skipPush' = orElse (skipPush options) False;
          skipMerge' = orElse (skipMerge options) False;
          packageFile' = orElse (packageFile options) ''package.json'';
          dryRun' = orElse (dryRun options) False;
          createTag' = orElse (createTag options) True;
          tagPrefix' = orElse (tagPrefix options) ''v''
      in
      await (isGitRepository G) (\<lambda>isRepo.
      if \<not> isRepo then throw (Error ''Not a git repository'')
      else
        await (reading (getCurrentVersion packageFile')) (\<lambda>version.
        case version of
          JString currentVersion \<Rightarrow>
            await (pure (calculateNewVersion currentVersion (bumpType options))) (\<lambda>newVersion'.
            if dryRun' then reportPlan branches' createTag' tagPrefix' currentVersion newVersion'
            else runSteps G branches' (commitMessage options) skipPush' skipMerge' packageFile'
                   createTag' tagPrefix' currentVersion newVersion')
        | _ \<Rightarrow> throw TypeError)))"

text \<open>
  The commands of a run in the order of the workflow, after the probe of the repository:
  fetch; switch to the source branch and pull; stage and commit the manifest; the tag;
  the pushes; for each target branch in order switch, pull, pull the source branch into
  it and push; last the switch back to the source branch.
\<close>

definition target_plan :: "string \<Rightarrow> bool \<Rightarrow> string \<Rightarrow> string list list" where
  "target_plan sourceBranch skipPush' targetBranch =
     [[''switch'', targetBranch], [''pull''], [''pull'', ''origin'', sourceBranch]]
     @ (if \<not> skipPush' then [[''push'', ''origin'', targetBranch]] else [])"

definition merge_plan :: "string \<Rightarrow> bool \<Rightarrow> string list \<Rightarrow> string list list" where
  "merge_plan sourceBranch skipPush' ts = concat (map (target_plan sourceBranch skipPush') ts)"

definition steps_plan ::
  "Branches \<Rightarrow> string option \<Rightarrow> bool \<Rightarrow> bool \<Rightarrow> string \<Rightarrow> bool \<Rightarrow> string \<Rightarrow> string
     \<Rightarrow> string list list" where
  "steps_plan branches' commitMessage' skipPush' skipMerge' packageFile' createTag' tagPrefix'
       newVersion' =
     [[''fetch''], [''switch'', sourceBranchOf branches'], [''pull''], [''add'', packageFile'],
      [''commit'', ''-m'', messageOf commitMessage' newVersion']]
     @ (if createTag' then [[''tag'', tagPrefix' @ newVersion']] else [])
     @ (if \<not> skipPush'
        then [''push'', ''origin'', sourceBranchOf branches']
             # (if createTag' then [[''push'', ''origin'', ''--tags'']] else [])
        else [])
     @ (if \<not> skipMerge' \<and> targets branches' \<noteq> None \<and> the (targets branches') \<noteq> []
        then merge_plan (sourceBranchOf branches') skipPush' (the (targets branches'))
             @ [[''switch'', sourceBranchOf branches']]
        else [])"

definition plan :: "BumpOptions \<Rightarrow> string \<Rightarrow> string list list" where
  "plan options newVersion' =
     (if orElse (dryRun options) False then []
      else steps_plan
             (orElse (branches options) \<lparr>source = Some ''develop'', targets = Some [''UAT'']\<rparr>)
             (commitMessage options) (orElse (skipPush options) False)
             (orElse (skipMerge options) False) (orElse (packageFile options) ''package.json'')
             (orElse (createTag options) True) (orElse (tagPrefix options) ''v'') newVersion')"

definition failfast :: "error + 'a \<Rightarrow> (string list \<times> outcome) list \<Rightarrow> bool" where
  \<comment> \<open>A command that failed is the last one that was run, and the result is its failure.\<close>
  "failfast r tr =
     (\<forall>i < length tr. \<forall>msg. snd (tr ! i) = Inl msg
        \<longrightarrow> Suc i = length tr \<and> r = Inl (git_failure (fst (tr ! i)) msg))"

definition follows :: "('a, 'r) io \<Rightarrow> string list list \<Rightarrow> bool" where
  \<comment> \<open>The computation runs the commands \<open>cs\<close> in order and stops at the first that fails.\<close>
  "follows m cs =
     (\<forall>w r w'. m w = (r, w') \<longrightarrow>
        (\<exists>tr. issued w' = issued w @ tr
           \<and> (\<exists>k \<le> length cs. map fst tr = take k cs)
           \<and> (isl r \<or> map fst tr = cs)
           \<and> failfast r tr))"


section \<open>cli.ts: the bump command\<close>

record VBumpConfig =
  cfg_branches :: "Branches option"
  cfg_commitMessageTemplate :: "string option"
  cfg_packageFile :: "string option"
  cfg_createTag :: "bool option"
  cfg_tagPrefix :: "string option"

definition emptyConfig :: VBumpConfig where
  \<comment> \<open>The object \<open>{}\<close>.\<close>
  "emptyConfig =
     \<lparr>cfg_branches = None, cfg_commitMessageTemplate = None, cfg_packageFile = None,
      cfg_createTag = None, cfg_tagPrefix = None\<rparr>"

definition CONFIG_FILE :: string where
  "CONFIG_FILE = ''vbump.json''"

text \<open>
  The configuration file is parsed and used at the type \<open>VBumpConfig\<close> without a check.
  The model decodes a document that has this type; one that has not is outside the model.
\<close>

definition string_field :: "(string \<times> json) list \<Rightarrow> string \<Rightarrow> string option option" where
  "string_field kvs k =
     (case map_of kvs k of
        None \<Rightarrow> Some None
      | Some (JString s) \<Rightarrow> Some (Some s)
      | Some _ \<Rightarrow> None)"

definition bool_field :: "(string \<times> json) list \<Rightarrow> string \<Rightarrow> bool option option" where
  "bool_field kvs k =
     (case map_of kvs k of
        None \<Rightarrow> Some None
      | Some (JBool b) \<Rightarrow> Some (Some b)
      | Some _ \<Rightarrow> None)"

fun strings_of :: "json list \<Rightarrow> string list option" where
  "strings_of [] = Some []"
| "strings_of (JString s # xs) = map_option ((#) s) (strings_of xs)"
| "strings_of (_ # xs) = None"

definition strings_field :: "(string \<times> json) list \<Rightarrow> string \<Rightarrow> string list option option" where
  "strings_field kvs k =
     (case map_of kvs k of
        None \<Rightarrow> Some None
      | Some (JArray xs) \<Rightarrow> map_option Some (strings_of xs)
      | Some _ \<Rightarrow> None)"

definition branches_field :: "(string \<times> json) list \<Rightarrow> Branches option option" where
  "branches_field kvs =
     (case map_of kvs ''branches'' of
        None \<Rightarrow> Some None
      | Some (JObject bs) \<Rightarrow>
          (case (string_field bs ''source'', strings_field bs ''targets'') of
             (Some s, Some t) \<Rightarrow> Some (Some \<lparr>source = s, targets = t\<rparr>)
           | _ \<Rightarrow> None)
      | Some _ \<Rightarrow> None)"

definition config_of_json :: "json \<Rightarrow> VBumpConfig option" where
  "config_of_json j =
     (case j of
        JObject kvs \<Rightarrow>
          (case (branches_field kvs, string_field kvs ''commitMessageTemplate'',
                 string_field kvs ''packageFile'', bool_field kvs ''createTag'',
                 string_field kvs ''tagPrefix'') of
             (Some b, Some m, Some p, Some c, Some t) \<Rightarrow>
               Some \<lparr>cfg_branches = b, cfg_commitMessageTemplate = m, cfg_packageFile = p,
                     cfg_createTag = c, cfg_tagPrefix = t\<rparr>
           | _ \<Rightarrow> None)
      | _ \<Rightarrow> None)"

definition loadConfig :: "(VBumpConfig, 'r) io" where
  "loadConfig w =
     (let configPath = join_path (cwd w) CONFIG_FILE
      in case files w configPath of
           None \<Rightarrow> (Inr emptyConfig, w)
         | Some content \<Rightarrow>
             (case JSON_parse content of
                Inl OutsideModel \<Rightarrow> (Inl OutsideModel, w)
              | Inl _ \<Rightarrow>
                  (Inr emptyConfig, w\<lparr>errout := errout w @ [''Failed to load config file'']\<rparr>)
              | Inr j \<Rightarrow>
                  (case config_of_json j of
                     None \<Rightarrow> (Inl OutsideModel, w)
                   | Some config \<Rightarrow> (Inr config, w))))"

record Options =
  opt_major :: bool
  opt_minor :: bool
  opt_patch :: bool
  opt_message :: "string option"
  opt_source :: "string option"
  opt_targets :: "string option"
  opt_skipPush :: bool
  opt_skipMerge :: bool
  opt_file :: "string option"
  opt_dryRun :: bool
  opt_tag :: "bool option"
  opt_tagPrefix :: "string option"

fun find_sub :: "string \<Rightarrow> string \<Rightarrow> string \<Rightarrow> (string \<times> string) option" where
  \<comment> \<open>The text before and after the first occurrence of a pattern.\<close>
  "find_sub pat pre [] = (if pat = [] then Some (rev pre, []) else None)"
| "find_sub pat pre (c # cs) =
     (if take (length pat) (c # cs) = pat then Some (rev pre, drop (length pat) (c # cs))
      else find_sub pat (c # pre) cs)"

fun substitution :: "string \<Rightarrow> string \<Rightarrow> string \<Rightarrow> string \<Rightarrow> string" where
  \<comment> \<open>The replacement text of \<open>replace\<close> with a string pattern: \<open>$$\<close> is a dollar sign,
      \<open>$&\<close> the matched text, \<open>$`\<close> the text before it and \<open>$'\<close> the text after it.\<close>
  "substitution matched front back [] = []"
| "substitution matched front back [c] = [c]"
| "substitution matched front back (c # d # r) =
     (if c = CHR ''$'' \<and> d = CHR ''$'' then CHR ''$'' # substitution matched front back r
      else if c = CHR ''$'' \<and> d = CHR ''&'' then matched @ substitution matched front back r
      else if c = CHR ''$'' \<and> d = CHR 0x60 then front @ substitution matched front back r
      else if c = CHR ''$'' \<and> d = CHR 0x27 then back @ substitution matched front back r
      else c # substitution matched front back (d # r))"

definition replace_js :: "string \<Rightarrow> string \<Rightarrow> string \<Rightarrow> string" where
  \<comment> \<open>\<open>s.replace(pat, replacement)\<close> with two strings: the first occurrence only.\<close>
  "replace_js s pat replacement =
     (case find_sub pat [] s of
        None \<Rightarrow> s
      | Some (front, back) \<Rightarrow> front @ substitution pat front back replacement @ back)"

definition parseTargets :: "Options \<Rightarrow> VBumpConfig \<Rightarrow> string list option" where
  \<comment> \<open>The variable \<open>targets\<close> of the action.\<close>
  "parseTargets options config =
     (if truthy_str (opt_targets options)
      then Some (map trim_js (split_js CHR '','' (the (opt_targets options))))
      else case cfg_branches config of None \<Rightarrow> None | Some b \<Rightarrow> targets b)"

definition config_source :: "VBumpConfig \<Rightarrow> string option" where
  \<comment> \<open>\<open>config.branches?.source\<close>\<close>
  "config_source config = (case cfg_branches config of None \<Rightarrow> None | Some b \<Rightarrow> source b)"

definition resolvedFile :: "Options \<Rightarrow> VBumpConfig \<Rightarrow> string" where
  \<comment> \<open>\<open>options.file || config.packageFile || 'package.json'\<close>\<close>
  "resolvedFile options config =
     (if truthy_str (opt_file options) then the (opt_file options)
      else if truthy_str (cfg_packageFile config) then the (cfg_packageFile config)
      else ''package.json'')"

definition resolvedMessage :: "Options \<Rightarrow> VBumpConfig \<Rightarrow> 'r world \<Rightarrow> error + string option" where
  \<comment> \<open>The field \<open>commitMessage\<close> of \<open>bumpOptions\<close>.\<close>
  "resolvedMessage options config w =
     (if truthy_str (opt_message options) then Inr (opt_message options)
      else if truthy_str (cfg_commitMessageTemplate config) then
        (case getCurrentVersion (resolvedFile options config) w of
           Inl e \<Rightarrow> Inl e
         | Inr (JString version) \<Rightarrow>
             Inr (Some (replace_js (the (cfg_commitMessageTemplate config)) ''{version}'' version))
         | Inr _ \<Rightarrow> Inl OutsideModel)
      else Inr None)"

definition bumpOptions :: "BumpType \<Rightarrow> Options \<Rightarrow> VBumpConfig \<Rightarrow> 'r world \<Rightarrow> error + BumpOptions" where
  "bumpOptions bumpType' options config w =
     (case resolvedMessage options config w of
        Inl e \<Rightarrow> Inl e
      | Inr message \<Rightarrow>
          Inr \<lparr>bumpType = bumpType',
               branches = Some
                 \<lparr>source = Some
                    (if truthy_str (opt_source options) then the (opt_source options)
                     else if truthy_str (config_source config) then the (config_source config)
                     else ''develop''),
                  targets = Some (orElse (parseTargets options config) [''UAT''])\<rparr>,
               commitMessage = message,
               skipPush = Some (opt_skipPush options),
               skipMerge = Some (opt_skipMerge options),
               packageFile = Some (resolvedFile options config),
               dryRun = Some (opt_dryRun options),
               createTag = Some
                 (case opt_tag options of
                    Some t \<Rightarrow> t
                  | None \<Rightarrow> orElse (cfg_createTag config) True),
               tagPrefix = Some
                 (if truthy_str (opt_tagPrefix options) then the (opt_tagPrefix options)
                  else if truthy_str (cfg_tagPrefix config) then the (cfg_tagPrefix config)
                  else ''v'')\<rparr>)"

definition bumpAction :: "'r git \<Rightarrow> Options \<Rightarrow> (VersionInfo, 'r) io" where
  \<comment> \<open>The body of the action of the bump command. The caller prints the message of an
      exception and exits with status 1.\<close>
  "bumpAction G options =
     (case (if opt_major options then Some Major
            else if opt_minor options then Some Minor
            else if opt_patch options then Some Patch
            else None) of
        None \<Rightarrow> throw (Error ''Please specify a bump type: --major, --minor, or --patch'')
      | Some bumpType' \<Rightarrow>
          await loadConfig (\<lambda>config.
          await (reading (bumpOptions bumpType' options config)) (\<lambda>opts.
          await (bumpVersion G opts) (\<lambda>result.
          if \<not> opt_dryRun options then
            await (console_log (''Version successfully bumped from '' @ oldVersion result
                     @ '' to '' @ newVersion result)) (\<lambda>_. return result)
          else return result))))"

definition report_lines :: "BumpOptions \<Rightarrow> string \<Rightarrow> string \<Rightarrow> string list" where
  \<comment> \<open>The plan that a dry run prints.\<close>
  "report_lines options cv nv =
     [''Dry run mode enabled'', ''Current version: '' @ cv, ''New version: '' @ nv,
      ''Source branch: ''
        @ orElse (source (orElse (branches options)
                    \<lparr>source = Some ''develop'', targets = Some [''UAT'']\<rparr>)) ''undefined'',
      ''Target branches: ''
        @ (if join_js '', '' (orElse (targets (orElse (branches options)
                    \<lparr>source = Some ''develop'', targets = Some [''UAT'']\<rparr>)) []) = []
           then ''none''
           else join_js '', '' (orElse (targets (orElse (branches options)
                    \<lparr>source = Some ''develop'', targets = Some [''UAT'']\<rparr>)) [])),
      ''Create tag: ''
        @ (if orElse (createTag options) True then orElse (tagPrefix options) ''v'' @ nv
           else ''no'')]"

definition dry_outcome ::
  "BumpOptions \<Rightarrow> outcome \<Rightarrow> string \<Rightarrow> fs \<Rightarrow> (error + VersionInfo) \<times> string list" where
  \<comment> \<open>The result and the printed lines of a dry run, from the outcome of the probe and
      the files after it.\<close>
  "dry_outcome options out dir f =
     (if isl out then (Inl (Error ''Not a git repository''), [])
      else
        (case getCurrentVersion (orElse (packageFile options) ''package.json'')
                \<lparr>cwd = dir, files = f, repo = (), issued = [], console = [], errout = []\<rparr> of
           Inl e \<Rightarrow> (Inl e, [])
         | Inr (JString cv) \<Rightarrow>
             (case calculateNewVersion cv (bumpType options) of
                Inl e \<Rightarrow> (Inl e, [])
              | Inr nv \<Rightarrow>
                  (Inr \<lparr>oldVersion = cv, newVersion = nv\<rparr>, report_lines options cv nv))
         | Inr _ \<Rightarrow> (Inl TypeError, [])))"


section \<open>Concrete inputs\<close>

definition noOptions :: Options where
  \<comment> \<open>No flag on the command line.\<close>
  "noOptions = \<lparr>opt_major = False, opt_minor = False, opt_patch = False, opt_message = None,
     opt_source = None, opt_targets = None, opt_skipPush = False, opt_skipMerge = False,
     opt_file = None, opt_dryRun = False, opt_tag = None, opt_tagPrefix = None\<rparr>"

definition okGit :: "unit git" where
  \<comment> \<open>Every command succeeds, prints nothing and changes nothing.\<close>
  "okGit args r f = (Inr [], r, f)"

definition failGit :: "string list \<Rightarrow> unit git" where
  \<comment> \<open>The command \<open>cmd\<close> fails, every other command succeeds.\<close>
  "failGit cmd args r f = (if args = cmd then (Inl ''conflict'', r, f) else (Inr [], r, f))"

definition manifest :: "string \<Rightarrow> string" where
  \<comment> \<open>The text \<open>{"version":"v"}\<close>.\<close>
  "manifest v =
     CHR ''{'' # dquote # ''version'' @ dquote # CHR '':'' # dquote # v @ [dquote, CHR ''}'']"

definition templateText :: string where
  \<comment> \<open>The text \<open>{"commitMessageTemplate":"build: {version}"}\<close>.\<close>
  "templateText =
     CHR ''{'' # dquote # ''commitMessageTemplate'' @ dquote # CHR '':'' # dquote
     # ''build: {version}'' @ [dquote, CHR ''}'']"

definition world0 :: "fs \<Rightarrow> unit world" where
  "world0 f = \<lparr>cwd = ''/repo'', files = f, repo = (), issued = [], console = [], errout = []\<rparr>"

definition yields :: "('a, 'r) io \<Rightarrow> 'a \<Rightarrow> bool" where
  "yields m x = (\<forall>w y w'. m w = (Inr y, w') \<longrightarrow> y = x)"

definition defaultOptions :: BumpOptions where
  "defaultOptions =
     \<lparr>bumpType = Minor,
      branches = Some \<lparr>source = Some ''develop'', targets = Some [''UAT'']\<rparr>,
      commitMessage = None, skipPush = Some False, skipMerge = Some False,
      packageFile = Some ''package.json'', dryRun = Some False, createTag = Some True,
      tagPrefix = Some ''v''\<rparr>"

definition twoTargets :: BumpOptions where
  "twoTargets =
     \<lparr>bumpType = Minor,
      branches = Some \<lparr>source = Some ''develop'', targets = Some [''UAT'', ''staging'']\<rparr>,
      commitMessage = None, skipPush = Some False, skipMerge = Some False,
      packageFile = Some ''package.json'', dryRun = Some False, createTag = Some True,
      tagPrefix = Some ''v''\<rparr>"

definition repoWorld :: "unit world" where
  "repoWorld = world0 [''/repo/package.json'' \<mapsto> manifest ''1.2.3'']"

definition templateWorld :: "unit world" where
  "templateWorld =
     world0 [''/repo/package.json'' \<mapsto> manifest ''1.2.3'',
             ''/repo/vbump.json'' \<mapsto> templateText]"

definition templateConfig :: VBumpConfig where
  "templateConfig = emptyConfig\<lparr>cfg_commitMessageTemplate := Some ''build: {version}''\<rparr>"

definition persistedBranches :: VBumpConfig where
  \<comment> \<open>The configuration \<open>{"branches":{"source":"trunk","targets":["staging"]}}\<close>.\<close>
  "persistedBranches =
     emptyConfig\<lparr>cfg_branches := Some \<lparr>source = Some ''trunk'', targets = Some [''staging'']\<rparr>\<rparr>"


section \<open>Documents in the form that the parser builds\<close>





text \<open>
  The tokens of the text that \<open>JSON_stringify\<close> writes for a document. \<open>appE\<close> puts
  tokens before the result of the lexer on the rest of a text. A number token ends at
  the first character that cannot belong to a number: \<open>follow\<close> holds of the texts
  before which a number may stand.
\<close>

definition follow :: "string \<Rightarrow> bool" where
  "follow s = (case s of [] \<Rightarrow> True | c # cs \<Rightarrow> \<not> isNumChar c)"

definition appE :: "'a list \<Rightarrow> error + 'a list \<Rightarrow> error + 'a list" where
  "appE xs r = (case r of Inl e \<Rightarrow> Inl e | Inr ys \<Rightarrow> Inr (xs @ ys))"









section \<open>Facts about the string and number helpers\<close>

lemma isDigit_digitChar: "isDigit (digitChar d)"
  by (simp add: isDigit_def digitChar_def)

lemma digitVal_digitChar: "d < 10 \<Longrightarrow> digitVal (digitChar d) = d"
proof -
  assume "d < 10"
  then have "d = 0 \<or> d = 1 \<or> d = 2 \<or> d = 3 \<or> d = 4 \<or> d = 5 \<or> d = 6
    \<or> d = 7 \<or> d = 8 \<or> d = 9"
    by arith
  then show ?thesis
    by (elim disjE) (simp_all add: digitVal_def digitChar_def isDigit_def)
qed

lemma isDigit_not_space: "isDigit c \<Longrightarrow> \<not> isWhiteSpace c"
  by (auto simp: isDigit_def isWhiteSpace_def)

lemma isDigit_not_dot: "isDigit c \<Longrightarrow> c \<noteq> CHR ''.''"
  by (auto simp: isDigit_def)

lemma show_nat_digits: "list_all isDigit (show_nat n)"
proof (induction n rule: show_nat.induct)
  case (1 n)
  then show ?case
    by (subst show_nat.simps) (simp add: isDigit_digitChar)
qed

lemma show_nat_nonempty: "show_nat n \<noteq> []"
  by (subst show_nat.simps) simp

lemma radix_val_snoc: "radix_val r (ds @ [c]) = r * radix_val r ds + digitVal c"
  by (simp add: radix_val_def)

lemma radix_val_show_nat: "radix_val 10 (show_nat n) = n"
proof (induction n rule: show_nat.induct)
  case (1 n)
  show ?case
  proof (cases "n < 10")
    case True
    then show ?thesis
      by (subst show_nat.simps) (simp add: radix_val_def digitVal_digitChar)
  next
    case False
    with 1 have "radix_val 10 (show_nat (n div 10)) = n div 10" by simp
    with False show ?thesis
      by (subst show_nat.simps) (simp add: radix_val_snoc digitVal_digitChar)
  qed
qed

lemma split_acc_no_sep:
  "sep \<notin> set a \<Longrightarrow> split_acc sep acc a = [rev acc @ a]"
  by (induction a arbitrary: acc) auto

lemma split_acc_sep:
  "sep \<notin> set a \<Longrightarrow> split_acc sep acc (a @ sep # b) = (rev acc @ a) # split_acc sep [] b"
  by (induction a arbitrary: acc) auto

lemma split_js_three:
  assumes "sep \<notin> set a" "sep \<notin> set b" "sep \<notin> set c"
  shows "split_js sep (a @ [sep] @ b @ [sep] @ c) = [a, b, c]"
  using assms by (simp add: split_js_def split_acc_sep split_acc_no_sep)

lemma trim_js_id:
  assumes "s \<noteq> []" "\<not> isWhiteSpace (hd s)" "\<not> isWhiteSpace (last s)"
  shows "trim_js s = s"
proof -
  from assms have 1: "dropWhile isWhiteSpace s = s"
    by (cases s) auto
  from assms have "rev s \<noteq> []" "\<not> isWhiteSpace (hd (rev s))"
    by (simp_all add: hd_rev)
  then have "dropWhile isWhiteSpace (rev s) = rev s"
    by (cases "rev s") auto
  with 1 show ?thesis by (simp add: trim_js_def)
qed

lemma Number_js_digits:
  assumes "ds \<noteq> []" "list_all isDigit ds"
  shows "Number_js ds = track (int (radix_val 10 ds))"
proof -
  from assms have hd: "isDigit (hd ds)" and lst: "isDigit (last ds)"
    by (auto simp: list_all_iff)
  with assms have t: "trim_js ds = ds"
    by (intro trim_js_id) (auto dest: isDigit_not_space)
  have r: "radix_literal ds = None"
  proof (cases ds)
    case Nil with assms show ?thesis by simp
  next
    case (Cons c cs)
    show ?thesis
    proof (cases cs)
      case Nil with Cons show ?thesis by (simp add: radix_literal_def)
    next
      case (Cons d body)
      with assms \<open>ds = c # cs\<close> have "isDigit d" by simp
      then have "d \<notin> set ''xXoObB''" by (auto simp: isDigit_def)
      with Cons \<open>ds = c # cs\<close> show ?thesis by (simp add: radix_literal_def)
    qed
  qed
  from hd assms have s: "strip_sign ds = (1, ds)"
    by (cases ds) (auto simp: strip_sign_def isDigit_def)
  from hd assms have i: "ds \<noteq> ''Infinity''"
    by (auto simp: isDigit_def)
  from assms have tw: "takeWhile isDigit ds = ds" "dropWhile isDigit ds = []"
    by (auto simp: list_all_iff)
  have d: "decimal_literal ds = Some (ds, [], 0)"
    unfolding decimal_literal_def tw using assms by (simp add: Let_def)
  have v: "decimal_value ds [] 0 = Some (int (radix_val 10 ds))"
    by (simp add: decimal_value_def Let_def)
  from assms t r s i d v show ?thesis
    by (simp add: Number_js_def)
qed

lemma Number_js_show_nat:
  "Number_js (show_nat n) = track (int n)"
  by (simp add: Number_js_digits show_nat_digits show_nat_nonempty radix_val_show_nat)

lemma track_not_NaN: "\<not> isNaN (track v)"
  by (simp add: track_def isNaN_def)

lemma show_nat_no_dot: "CHR ''.'' \<notin> set (show_nat n)"
  using show_nat_digits [of n] by (auto simp: list_all_iff dest: isDigit_not_dot)

lemma parts_version_string:
  "map Number_js (split_js CHR ''.'' (version_string X Y Z))
     = [track (int X), track (int Y), track (int Z)]"
proof -
  have "split_js CHR ''.'' (show_nat X @ [CHR ''.''] @ show_nat Y @ [CHR ''.''] @ show_nat Z)
          = [show_nat X, show_nat Y, show_nat Z]"
    by (rule split_js_three) (rule show_nat_no_dot)+
  then show ?thesis
    by (simp add: version_string_def Number_js_show_nat)
qed

section \<open>Properties of calculateNewVersion\<close>

text \<open>
  C3. The claim: calculateNewVersion fails with the invalid-version-format error unless
  the version splits on the dot into exactly three components that are non-negative
  integers without a sign; an input with a signed component such as \<open>1.-2.3\<close> fails.
  The code converts each component with \<open>Number\<close> and rejects only \<open>NaN\<close>: on \<open>1.-2.3\<close>
  with the patch kind it returns \<open>1.-2.4\<close>.
\<close>

theorem calculateNewVersion_signed_component:
  "calculateNewVersion ''1.-2.3'' Patch = Inr ''1.-2.4''"
  by code_simp

theorem calculateNewVersion_signed_component_witness:
  "calculateNewVersion ''1.-2.3'' Patch \<noteq> Inl (InvalidVersionFormat ''1.-2.3'')"
  using calculateNewVersion_signed_component by simp

text \<open>
  C4. For the text \<open>X.Y.Z\<close> of three non-negative integers below \<open>2^53\<close>,
  calculateNewVersion returns \<open>(X+1).0.0\<close> for the major kind, \<open>X.(Y+1).0\<close> for the minor
  kind and \<open>X.Y.(Z+1)\<close> for the patch kind. (It is a function of its two arguments, so
  it is deterministic and has no effect.)
\<close>

theorem calculateNewVersion_bumps:
  assumes "int X < maxExact" "int Y < maxExact" "int Z < maxExact"
  shows "calculateNewVersion (version_string X Y Z) Major = Inr (version_string (X + 1) 0 0)
       \<and> calculateNewVersion (version_string X Y Z) Minor = Inr (version_string X (Y + 1) 0)
       \<and> calculateNewVersion (version_string X Y Z) Patch = Inr (version_string X Y (Z + 1))"
proof -
  have z: "show_nat 0 = ''0''" by (simp add: show_nat.simps digitChar_def)
  from assms have t: "track (int X) = Num (int X)" "track (int Y) = Num (int Y)"
    "track (int Z) = Num (int Z)"
    by (simp_all add: track_def)
  from assms have p: "plus1 (Num (int X)) = Num (int (X + 1))"
    "plus1 (Num (int Y)) = Num (int (Y + 1))" "plus1 (Num (int Z)) = Num (int (Z + 1))"
    by (simp_all add: plus1_def)
  have s: "\<And>n. toString_num (Num (int n)) = Some (show_nat n)"
    by (simp add: toString_num_def show_int_def)
  have "calculateNewVersion (version_string X Y Z) Major = Inr (version_string (X + 1) 0 0)"
    unfolding calculateNewVersion_def parts_version_string t
    by (simp add: isNaN_def p s template_def version_string_def z del: of_nat_Suc of_nat_add)
  moreover
  have "calculateNewVersion (version_string X Y Z) Minor = Inr (version_string X (Y + 1) 0)"
    unfolding calculateNewVersion_def parts_version_string t
    by (simp add: isNaN_def p s template_def version_string_def z del: of_nat_Suc of_nat_add)
  moreover
  have "calculateNewVersion (version_string X Y Z) Patch = Inr (version_string X Y (Z + 1))"
    unfolding calculateNewVersion_def parts_version_string t
    by (simp add: isNaN_def p s template_def version_string_def z del: of_nat_Suc of_nat_add)
  ultimately show ?thesis by simp
qed

theorem calculateNewVersion_bumps_witness:
  "int 1 < maxExact \<and> int 2 < maxExact \<and> int 3 < maxExact
   \<and> version_string 1 2 3 = ''1.2.3''
   \<and> calculateNewVersion ''1.2.3'' Major = Inr ''2.0.0''
   \<and> calculateNewVersion ''1.2.3'' Minor = Inr ''1.3.0''
   \<and> calculateNewVersion ''1.2.3'' Patch = Inr ''1.2.4''"
proof -
  have h: "int 1 < maxExact" "int 2 < maxExact" "int 3 < maxExact"
    by (simp_all add: maxExact_def)
  have v: "version_string 1 2 3 = ''1.2.3''" "version_string (1 + 1) 0 0 = ''2.0.0''"
    "version_string 1 (2 + 1) 0 = ''1.3.0''" "version_string 1 2 (3 + 1) = ''1.2.4''"
    by (simp_all add: version_string_def show_nat.simps digitChar_def)
  from calculateNewVersion_bumps [OF h] h v show ?thesis by simp
qed

text \<open>
  The bound is needed: \<open>2^53 + 1\<close> is not a double, the sum rounds back to \<open>2^53\<close>, and
  the major bump of \<open>9007199254740992.0.0\<close> is \<open>9007199254740992.0.0\<close> again.
\<close>

theorem calculateNewVersion_bumps_counterexample:
  "calculateNewVersion (version_string 9007199254740992 0 0) Major
     \<noteq> Inr (version_string (9007199254740992 + 1) 0 0)"
proof -
  have v: "version_string 9007199254740992 0 0 = ''9007199254740992.0.0''"
    "version_string (9007199254740992 + 1) 0 0 = ''9007199254740993.0.0''"
    by (simp_all add: version_string_def show_nat.simps digitChar_def)
  have n: "Number_js ''9007199254740992'' = Num 9007199254740992"
    using Number_js_digits [of "''9007199254740992''"]
    by (simp add: isDigit_def radix_val_def digitVal_def track_def maxExact_def)
  have z: "Number_js ''0'' = Num 0"
    using Number_js_digits [of "''0''"]
    by (simp add: isDigit_def radix_val_def digitVal_def track_def maxExact_def)
  have s: "show_int 9007199254740992 = ''9007199254740992''"
    by (simp add: show_int_def show_nat.simps digitChar_def)
  have "calculateNewVersion ''9007199254740992.0.0'' Major = Inr ''9007199254740992.0.0''"
    by (simp add: calculateNewVersion_def split_js_def n z isNaN_def plus1_def maxExact_def
        toString_num_def s template_def)
  with v show ?thesis by simp
qed

section \<open>Facts about the commands of a run\<close>

lemma failfast_Nil: "failfast r []"
  by (simp add: failfast_def)

lemma failfast_ok_append:
  assumes "failfast (Inr x) tr1" "failfast r tr2"
  shows "failfast r (tr1 @ tr2)"
proof -
  from assms(1) have ok: "\<And>i msg. i < length tr1 \<Longrightarrow> snd (tr1 ! i) \<noteq> Inl msg"
    by (auto simp: failfast_def)
  show ?thesis
    unfolding failfast_def
  proof (intro allI impI)
    fix i msg
    assume i: "i < length (tr1 @ tr2)" and f: "snd ((tr1 @ tr2) ! i) = Inl msg"
    show "Suc i = length (tr1 @ tr2) \<and> r = Inl (git_failure (fst ((tr1 @ tr2) ! i)) msg)"
    proof (cases "i < length tr1")
      case True
      with f ok show ?thesis by (simp add: nth_append)
    next
      case False
      with i f have "i - length tr1 < length tr2" "snd (tr2 ! (i - length tr1)) = Inl msg"
        by (simp_all add: nth_append)
      with assms(2) have "Suc (i - length tr1) = length tr2
          \<and> r = Inl (git_failure (fst (tr2 ! (i - length tr1))) msg)"
        by (simp add: failfast_def)
      with False show ?thesis by (auto simp: nth_append)
    qed
  qed
qed

lemma failfast_Inl:
  "failfast (Inl e :: error + 'a) tr \<Longrightarrow> failfast (Inl e :: error + 'b) tr"
  by (simp add: failfast_def)

lemma follows_await:
  assumes m: "follows m cs1" and f: "\<And>x. follows (f x) cs2"
  shows "follows (await m f) (cs1 @ cs2)"
  unfolding follows_def
proof (intro allI impI)
  fix w r w'
  assume run: "await m f w = (r, w')"
  obtain r1 w1 where m1: "m w = (r1, w1)" by (cases "m w")
  from m m1 obtain tr1 k1 where tr1: "issued w1 = issued w @ tr1" "k1 \<le> length cs1"
    "map fst tr1 = take k1 cs1" "isl r1 \<or> map fst tr1 = cs1" "failfast r1 tr1"
    unfolding follows_def by blast
  show "\<exists>tr. issued w' = issued w @ tr
           \<and> (\<exists>k \<le> length (cs1 @ cs2). map fst tr = take k (cs1 @ cs2))
           \<and> (isl r \<or> map fst tr = cs1 @ cs2)
           \<and> failfast r tr"
  proof (cases r1)
    case (Inl e)
    with run m1 have "r = Inl e" "w' = w1" by (simp_all add: await_def)
    with tr1 Inl show ?thesis
      by (intro exI [of _ tr1]) (auto intro: exI [of _ k1] failfast_Inl)
  next
    case (Inr x)
    with run m1 have fx: "f x w1 = (r, w')" by (simp add: await_def)
    with f [of x] obtain tr2 k2 where tr2: "issued w' = issued w1 @ tr2" "k2 \<le> length cs2"
      "map fst tr2 = take k2 cs2" "isl r \<or> map fst tr2 = cs2" "failfast r tr2"
      unfolding follows_def by blast
    from Inr tr1 have all1: "map fst tr1 = cs1" by simp
    then have len1: "length tr1 = length cs1" by (metis length_map)
    from tr1 Inr tr2 have ff: "failfast r (tr1 @ tr2)"
      by (auto intro: failfast_ok_append)
    from all1 tr2 have "map fst (tr1 @ tr2) = take (length cs1 + k2) (cs1 @ cs2)"
      by simp
    moreover from tr2 have "length cs1 + k2 \<le> length (cs1 @ cs2)" by simp
    ultimately have pre: "\<exists>k \<le> length (cs1 @ cs2). map fst (tr1 @ tr2) = take k (cs1 @ cs2)"
      by blast
    from all1 tr2 have "isl r \<or> map fst (tr1 @ tr2) = cs1 @ cs2" by auto
    with tr1 tr2 ff pre show ?thesis
      by (intro exI [of _ "tr1 @ tr2"]) simp
  qed
qed

lemma follows_execGit: "follows (execGit G args) [args]"
  unfolding follows_def
proof (intro allI impI)
  fix w r w'
  assume run: "execGit G args w = (r, w')"
  obtain out r' f' where g: "G args (repo w) (files w) = (out, r', f')"
    by (cases "G args (repo w) (files w)")
  with run have w': "issued w' = issued w @ [(args, out)]"
    and r: "r = (case out of Inr stdout \<Rightarrow> Inr (trim_js stdout)
                 | Inl msg \<Rightarrow> Inl (git_failure args msg))"
    by (auto simp: execGit_def)
  from r have "failfast r [(args, out)]"
    by (auto simp: failfast_def)
  with w' show "\<exists>tr. issued w' = issued w @ tr
           \<and> (\<exists>k \<le> length [args]. map fst tr = take k [args])
           \<and> (isl r \<or> map fst tr = [args])
           \<and> failfast r tr"
    by (intro exI [of _ "[(args, out)]"]) (auto intro: exI [of _ 1])
qed

lemma follows_silent:
  assumes "\<And>w r w'. m w = (r, w') \<Longrightarrow> issued w' = issued w"
  shows "follows m []"
  unfolding follows_def using assms by (auto simp: failfast_Nil)

lemma follows_console_log: "follows (console_log l) []"
  by (rule follows_silent) (auto simp: console_log_def)

lemma follows_return: "follows (return x) []"
  by (rule follows_silent) (auto simp: return_def)

lemma follows_throw: "follows (throw e) []"
  by (rule follows_silent) (auto simp: throw_def)

lemma follows_updatePackageVersion: "follows (updatePackageVersion v file) []"
  by (rule follows_silent)
     (auto simp: updatePackageVersion_def Let_def split: option.splits sum.splits)

lemma follows_git:
  assumes "\<And>x. follows (f x) cs"
  shows "follows (await (execGit G args) f) (args # cs)"
  using follows_await [OF follows_execGit, of f cs G args] assms by simp

lemma follows_log:
  assumes "\<And>x. follows (f x) cs"
  shows "follows (await (console_log l) f) cs"
  using follows_await [OF follows_console_log, of f cs l] assms by simp

lemma follows_await_unit:
  assumes "follows m cs1" "follows (f ()) cs2"
  shows "follows (await m f) (cs1 @ cs2)"
  using assms by (intro follows_await) simp_all

lemma follows_if:
  assumes "c \<Longrightarrow> follows m1 cs1" "\<not> c \<Longrightarrow> follows m2 cs2"
  shows "follows (if c then m1 else m2) (if c then cs1 else cs2)"
  using assms by simp

lemma follows_mergeTargets:
  "follows (mergeTargets G sourceBranch sp ts) (merge_plan sourceBranch sp ts)"
proof (induction ts)
  case Nil
  show ?case by (simp add: merge_plan_def follows_return)
next
  case (Cons t ts)
  have push: "follows (if \<not> sp
            then await (console_log (''Pushing to '' @ t @ ''...'')) (\<lambda>_.
                 await (execGit G [''push'', ''origin'', t]) (\<lambda>_. return ()))
            else return ()) (if \<not> sp then [[''push'', ''origin'', t]] else [])"
    by (auto intro!: follows_log follows_git follows_return)
  have "follows (mergeTargets G sourceBranch sp (t # ts))
     ([''switch'', t] # [''pull''] # [''pull'', ''origin'', sourceBranch]
      # ((if \<not> sp then [[''push'', ''origin'', t]] else []) @ merge_plan sourceBranch sp ts))"
    unfolding mergeTargets.simps
    by (intro follows_log follows_git follows_await push Cons.IH)
  then show ?case by (simp add: merge_plan_def target_plan_def)
qed

lemma follows_runSteps:
  "follows (runSteps G b cm sp sm file ct tp cv nv) (steps_plan b cm sp sm file ct tp nv)"
proof -
  let ?src = "sourceBranchOf b"
  have tag: "follows (if ct
            then await (console_log (''Creating tag: '' @ tp @ nv)) (\<lambda>_.
                 await (execGit G [''tag'', tp @ nv]) (\<lambda>_. return ()))
            else return ()) (if ct then [[''tag'', tp @ nv]] else [])"
    by (auto intro!: follows_log follows_git follows_return)
  have push: "follows (if \<not> sp
            then await (console_log (''Pushing to '' @ ?src @ ''...'')) (\<lambda>_.
                 await (execGit G [''push'', ''origin'', ?src]) (\<lambda>_.
                 if ct
                 then await (console_log ''Pushing tags...'') (\<lambda>_.
                      await (execGit G [''push'', ''origin'', ''--tags'']) (\<lambda>_. return ()))
                 else return ()))
            else return ())
          (if \<not> sp
           then [''push'', ''origin'', ?src] # (if ct then [[''push'', ''origin'', ''--tags'']] else [])
           else [])"
    by (auto intro!: follows_log follows_git follows_return)
  have swb: "follows (await (console_log (''Switching back to '' @ ?src @ ''...''))
                   (\<lambda>_. await (execGit G [''switch'', ?src]) (\<lambda>_. return ())))
              [[''switch'', ?src]]"
    by (intro follows_log follows_git follows_return)
  have merge: "follows (if \<not> sm \<and> targets b \<noteq> None \<and> the (targets b) \<noteq> []
            then await (mergeTargets G ?src sp (the (targets b))) (\<lambda>_.
                 await (console_log (''Switching back to '' @ ?src @ ''...''))
                   (\<lambda>_.
                 await (execGit G [''switch'', ?src]) (\<lambda>_. return ())))
            else return ())
          (if \<not> sm \<and> targets b \<noteq> None \<and> the (targets b) \<noteq> []
           then merge_plan ?src sp (the (targets b)) @ [[''switch'', ?src]]
           else [])"
    by (intro follows_if follows_await [OF follows_mergeTargets, OF swb] follows_return)
  have fin: "follows (await (console_log (''Version bumped successfully: '' @ nv)) (\<lambda>_.
     return \<lparr>oldVersion = cv, newVersion = nv\<rparr>)) []"
    by (intro follows_log follows_return)
  have upd: "\<And>f cs. (\<And>x. follows (f x) cs)
      \<Longrightarrow> follows (await (updatePackageVersion nv file) f) cs"
    using follows_await [OF follows_updatePackageVersion] by fastforce
  have "follows (runSteps G b cm sp sm file ct tp cv nv)
     ([''fetch''] # [''switch'', ?src] # [''pull''] # [''add'', file]
      # [''commit'', ''-m'', messageOf cm nv]
      # ((if ct then [[''tag'', tp @ nv]] else [])
         @ ((if \<not> sp
             then [''push'', ''origin'', ?src]
                  # (if ct then [[''push'', ''origin'', ''--tags'']] else [])
             else [])
            @ ((if \<not> sm \<and> targets b \<noteq> None \<and> the (targets b) \<noteq> []
                then merge_plan ?src sp (the (targets b)) @ [[''switch'', ?src]]
                else []) @ []))))"
    unfolding runSteps_def
    by (intro follows_log follows_git upd follows_await tag push merge fin)
  then show ?thesis
    by (simp add: steps_plan_def)
qed

lemma yields_await: "(\<And>y. yields (f y) x) \<Longrightarrow> yields (await m f) x"
  unfolding yields_def await_def by (auto split: prod.splits sum.splits)

lemma yields_return: "yields (return x) x"
  by (simp add: yields_def return_def)

lemma yields_runSteps:
  "yields (runSteps G b cm sp sm file ct tp cv nv) \<lparr>oldVersion = cv, newVersion = nv\<rparr>"
  unfolding runSteps_def by (intro yields_await yields_return)

lemma reportPlan_eval:
  "reportPlan b ct tp cv nv w =
     (Inr \<lparr>oldVersion = cv, newVersion = nv\<rparr>,
      w\<lparr>console := console w @
         [''Dry run mode enabled'', ''Current version: '' @ cv, ''New version: '' @ nv,
          ''Source branch: '' @ orElse (source b) ''undefined'',
          ''Target branches: ''
            @ (if join_js '', '' (orElse (targets b) []) = [] then ''none''
               else join_js '', '' (orElse (targets b) [])),
          ''Create tag: '' @ (if ct then tp @ nv else ''no'')]\<rparr>)"
  by (simp add: reportPlan_def await_def console_log_def return_def)

lemma isGitRepository_eval:
  "isGitRepository G w =
     (case G [''rev-parse'', ''--git-dir''] (repo w) (files w) of
        (out, r', f') \<Rightarrow>
          (Inr (\<not> isl out),
           w\<lparr>repo := r', files := f',
             issued := issued w @ [([''rev-parse'', ''--git-dir''], out)]\<rparr>))"
  by (auto simp: isGitRepository_def execGit_def split: prod.splits sum.splits)

lemma getCurrentVersion_cong:
  "cwd w = cwd w2 \<Longrightarrow> files w = files w2 \<Longrightarrow> getCurrentVersion file w = getCurrentVersion file w2"
  by (simp add: getCurrentVersion_def)

lemma bumpVersion_unfold:
  "bumpVersion G options w =
     (case isGitRepository G w of
        (Inl e, w1) \<Rightarrow> (Inl e, w1)
      | (Inr isRepo, w1) \<Rightarrow>
          if \<not> isRepo then (Inl (Error ''Not a git repository''), w1)
          else
            (case getCurrentVersion (orElse (packageFile options) ''package.json'') w1 of
               Inl e \<Rightarrow> (Inl e, w1)
             | Inr (JString cv) \<Rightarrow>
                 (case calculateNewVersion cv (bumpType options) of
                    Inl e \<Rightarrow> (Inl e, w1)
                  | Inr nv \<Rightarrow>
                      if orElse (dryRun options) False
                      then reportPlan
                             (orElse (branches options)
                                \<lparr>source = Some ''develop'', targets = Some [''UAT'']\<rparr>)
                             (orElse (createTag options) True) (orElse (tagPrefix options) ''v'')
                             cv nv w1
                      else runSteps G
                             (orElse (branches options)
                                \<lparr>source = Some ''develop'', targets = Some [''UAT'']\<rparr>)
                             (commitMessage options) (orElse (skipPush options) False)
                             (orElse (skipMerge options) False)
                             (orElse (packageFile options) ''package.json'')
                             (orElse (createTag options) True) (orElse (tagPrefix options) ''v'')
                             cv nv w1)
             | Inr _ \<Rightarrow> (Inl TypeError, w1)))"
  by (simp add: bumpVersion_def Let_def await_def reading_def pure_def throw_def
      split: prod.splits sum.splits json.splits)

lemma bumpVersion_trace:
  assumes run: "bumpVersion G options w = (r, w')"
  shows "\<exists>out tr. issued w' = issued w @ ([''rev-parse'', ''--git-dir''], out) # tr
           \<and> failfast r tr
           \<and> (\<forall>info. r = Inr info \<longrightarrow> map fst tr = plan options (newVersion info))
           \<and> (\<exists>nv k. k \<le> length (plan options nv) \<and> map fst tr = take k (plan options nv))"
proof -
  obtain out r1 f1 where g: "G [''rev-parse'', ''--git-dir''] (repo w) (files w) = (out, r1, f1)"
    by (cases "G [''rev-parse'', ''--git-dir''] (repo w) (files w)")
  define w1 where "w1 = w\<lparr>repo := r1, files := f1,
             issued := issued w @ [([''rev-parse'', ''--git-dir''], out)]\<rparr>"
  have probe: "isGitRepository G w = (Inr (\<not> isl out), w1)"
    by (simp add: isGitRepository_eval g w1_def)
  have i1: "issued w1 = issued w @ [([''rev-parse'', ''--git-dir''], out)]"
    by (simp add: w1_def)
  have stop: ?thesis if "w' = w1" "isl r"
  proof -
    from that i1 have "issued w' = issued w @ ([''rev-parse'', ''--git-dir''], out) # []"
      by simp
    moreover have "failfast r []" by (rule failfast_Nil)
    moreover from that have "\<forall>info. r = Inr info \<longrightarrow> map fst [] = plan options (newVersion info)"
      by auto
    moreover have "\<exists>nv k. k \<le> length (plan options nv) \<and> map fst [] = take k (plan options nv)"
      by (intro exI [of _ "[]"] exI [of _ 0]) simp
    ultimately show ?thesis by blast
  qed
  let ?file = "orElse (packageFile options) ''package.json''"
  show ?thesis
  proof (cases "\<not> isl out")
    case False
    with run probe have "w' = w1" "isl r" by (auto simp: bumpVersion_unfold)
    then show ?thesis by (rule stop)
  next
    case True
    note repo = this
    show ?thesis
    proof (cases "getCurrentVersion ?file w1")
      case (Inl e)
      with run probe repo have "w' = w1" "isl r" by (auto simp: bumpVersion_unfold)
      then show ?thesis by (rule stop)
    next
      case (Inr version)
      show ?thesis
      proof (cases "\<exists>cv. version = JString cv")
        case False
        with run probe repo Inr have "w' = w1" "isl r"
          by (auto simp: bumpVersion_unfold split: json.splits)
        then show ?thesis by (rule stop)
      next
        case True
        then obtain cv where cv: "version = JString cv" ..
        show ?thesis
        proof (cases "calculateNewVersion cv (bumpType options)")
          case (Inl e)
          with run probe repo Inr cv have "w' = w1" "isl r"
            by (auto simp: bumpVersion_unfold)
          then show ?thesis by (rule stop)
        next
          case nv: (Inr nv)
          show ?thesis
          proof (cases "orElse (dryRun options) False")
            case True
            with run probe repo Inr cv nv
            have r: "r = Inr \<lparr>oldVersion = cv, newVersion = nv\<rparr>" and "issued w' = issued w1"
              by (auto simp: bumpVersion_unfold reportPlan_eval)
            with i1 have "issued w' = issued w @ ([''rev-parse'', ''--git-dir''], out) # []"
              by simp
            moreover have "failfast r []" by (rule failfast_Nil)
            moreover from True have p: "\<And>v. plan options v = []" by (simp add: plan_def)
            ultimately show ?thesis by (intro exI [of _ out] exI [of _ "[]"]) (simp add: p)
          next
            case False
            let ?steps = "runSteps G
                             (orElse (branches options)
                                \<lparr>source = Some ''develop'', targets = Some [''UAT'']\<rparr>)
                             (commitMessage options) (orElse (skipPush options) False)
                             (orElse (skipMerge options) False) ?file
                             (orElse (createTag options) True) (orElse (tagPrefix options) ''v'')
                             cv nv"
            from run probe repo Inr cv nv False have steps: "?steps w1 = (r, w')"
              by (simp add: bumpVersion_unfold)
            from False have p: "plan options nv = steps_plan
                             (orElse (branches options)
                                \<lparr>source = Some ''develop'', targets = Some [''UAT'']\<rparr>)
                             (commitMessage options) (orElse (skipPush options) False)
                             (orElse (skipMerge options) False) ?file
                             (orElse (createTag options) True) (orElse (tagPrefix options) ''v'')
                             nv"
              by (simp add: plan_def)
            have "follows ?steps (plan options nv)"
              unfolding p by (rule follows_runSteps)
            with steps obtain tr k where tr: "issued w' = issued w1 @ tr" "k \<le> length (plan options nv)"
              "map fst tr = take k (plan options nv)" "isl r \<or> map fst tr = plan options nv"
              "failfast r tr"
              unfolding follows_def by blast
            have "\<forall>info. r = Inr info \<longrightarrow> map fst tr = plan options (newVersion info)"
            proof (intro allI impI)
              fix info assume i: "r = Inr info"
              with steps have "?steps w1 = (Inr info, w')" by simp
              with yields_runSteps have "info = \<lparr>oldVersion = cv, newVersion = nv\<rparr>"
                unfolding yields_def by blast
              with i tr show "map fst tr = plan options (newVersion info)"
                by auto
            qed
            with tr i1 show ?thesis
              by (intro exI [of _ out] exI [of _ tr]) auto
          qed
        qed
      qed
    qed
  qed
qed

lemma bumpOptions_fields:
  assumes "bumpOptions bt options config w = Inr bo"
  shows "tagPrefix bo = Some
           (if truthy_str (opt_tagPrefix options) then the (opt_tagPrefix options)
            else if truthy_str (cfg_tagPrefix config) then the (cfg_tagPrefix config)
            else ''v'')"
    and "packageFile bo = Some (resolvedFile options config)"
    and "createTag bo = Some
           (case opt_tag options of Some t \<Rightarrow> t | None \<Rightarrow> orElse (cfg_createTag config) True)"
    and "branches bo = Some
           \<lparr>source = Some
              (if truthy_str (opt_source options) then the (opt_source options)
               else if truthy_str (config_source config) then the (config_source config)
               else ''develop''),
            targets = Some (orElse (parseTargets options config) [''UAT''])\<rparr>"
    and "resolvedMessage options config w = Inr (commitMessage bo)"
    and "bumpType bo = bt"
    and "skipPush bo = Some (opt_skipPush options)"
    and "skipMerge bo = Some (opt_skipMerge options)"
    and "dryRun bo = Some (opt_dryRun options)"
proof -
  from assms obtain m where m: "resolvedMessage options config w = Inr m"
    by (cases "resolvedMessage options config w") (simp_all add: bumpOptions_def)
  with assms have bo: "bo = \<lparr>bumpType = bt,
               branches = Some
                 \<lparr>source = Some
                    (if truthy_str (opt_source options) then the (opt_source options)
                     else if truthy_str (config_source config) then the (config_source config)
                     else ''develop''),
                  targets = Some (orElse (parseTargets options config) [''UAT''])\<rparr>,
               commitMessage = m,
               skipPush = Some (opt_skipPush options),
               skipMerge = Some (opt_skipMerge options),
               packageFile = Some (resolvedFile options config),
               dryRun = Some (opt_dryRun options),
               createTag = Some
                 (case opt_tag options of
                    Some t \<Rightarrow> t
                  | None \<Rightarrow> orElse (cfg_createTag config) True),
               tagPrefix = Some
                 (if truthy_str (opt_tagPrefix options) then the (opt_tagPrefix options)
                  else if truthy_str (cfg_tagPrefix config) then the (cfg_tagPrefix config)
                  else ''v'')\<rparr>"
    by (simp add: bumpOptions_def)
  show "tagPrefix bo = Some
           (if truthy_str (opt_tagPrefix options) then the (opt_tagPrefix options)
            else if truthy_str (cfg_tagPrefix config) then the (cfg_tagPrefix config)
            else ''v'')" by (subst bo) simp
  show "packageFile bo = Some (resolvedFile options config)" by (subst bo) simp
  show "createTag bo = Some
           (case opt_tag options of Some t \<Rightarrow> t | None \<Rightarrow> orElse (cfg_createTag config) True)"
    by (subst bo) simp
  show "branches bo = Some
           \<lparr>source = Some
              (if truthy_str (opt_source options) then the (opt_source options)
               else if truthy_str (config_source config) then the (config_source config)
               else ''develop''),
            targets = Some (orElse (parseTargets options config) [''UAT''])\<rparr>"
    by (subst bo) simp
  show "resolvedMessage options config w = Inr (commitMessage bo)" using m by (subst bo) simp
  show "bumpType bo = bt" by (subst bo) simp
  show "skipPush bo = Some (opt_skipPush options)" by (subst bo) simp
  show "skipMerge bo = Some (opt_skipMerge options)" by (subst bo) simp
  show "dryRun bo = Some (opt_dryRun options)" by (subst bo) simp
qed

section \<open>Evaluating a run\<close>

lemma await_console_log: "await (console_log l) f w = f () (w\<lparr>console := console w @ [l]\<rparr>)"
  by (simp add: await_def console_log_def)

lemma await_return: "await (return x) f w = f x w"
  by (simp add: await_def return_def)

lemma await_assoc: "await (await m f) g = await m (\<lambda>x. await (f x) g)"
  by (rule ext) (simp add: await_def split: prod.splits sum.splits)

lemma return_eval: "return x w = (Inr x, w)"
  by (simp add: return_def)

lemma await_execGit:
  "await (execGit G args) f w =
     (case G args (repo w) (files w) of
        (Inr out, r', f') \<Rightarrow>
          f (trim_js out) (w\<lparr>repo := r', files := f', issued := issued w @ [(args, Inr out)]\<rparr>)
      | (Inl msg, r', f') \<Rightarrow>
          (Inl (git_failure args msg),
           w\<lparr>repo := r', files := f', issued := issued w @ [(args, Inl msg)]\<rparr>))"
  by (simp add: await_def execGit_def split: prod.splits sum.splits)

lemma await_updatePackageVersion:
  assumes "files w (join_path (cwd w) file) = Some content"
    and "JSON_parse content = Inr (JObject kvs)"
  shows "await (updatePackageVersion nv file) f w =
     f () (w\<lparr>files := (files w)(join_path (cwd w) file \<mapsto>
             JSON_stringify (JObject (obj_put kvs ''version'' (JString nv))) @ [newline])\<rparr>)"
  using assms by (simp add: await_def updatePackageVersion_def set_version_def)

lemma trim_js_Nil: "trim_js [] = []"
  by (simp add: trim_js_def)

lemma parse_manifest_123:
  "JSON_parse (manifest ''1.2.3'') = Inr (JObject [(''version'', JString ''1.2.3'')])"
  by code_simp

lemma calc_123_minor: "calculateNewVersion ''1.2.3'' Minor = Inr ''1.3.0''"
  by code_simp

lemma join_repo_package: "join_path ''/repo'' ''package.json'' = ''/repo/package.json''"
  by code_simp

lemma join_repo_config: "join_path ''/repo'' ''vbump.json'' = ''/repo/vbump.json''"
  by code_simp

lemmas join_eval = join_repo_package join_repo_config

lemma getCurrentVersion_manifest_123:
  "files w (join_path (cwd w) file) = Some (manifest ''1.2.3'')
    \<Longrightarrow> getCurrentVersion file w = Inr (JString ''1.2.3'')"
  by (simp add: getCurrentVersion_def parse_manifest_123 version_of_def)

lemmas run_eval =
  bumpVersion_unfold isGitRepository_eval world0_def repoWorld_def
  orElse_def join_eval getCurrentVersion_manifest_123 calc_123_minor
  runSteps_def await_console_log await_return await_execGit await_assoc return_eval
  await_updatePackageVersion [where content = "manifest ''1.2.3''"
        and kvs = "[(''version'', JString ''1.2.3'')]"] parse_manifest_123
  sourceBranchOf_def truthy_str_def messageOf_def

lemma default_run:
  "fst (bumpVersion okGit defaultOptions repoWorld)
     = Inr \<lparr>oldVersion = ''1.2.3'', newVersion = ''1.3.0''\<rparr>
   \<and> map fst (issued (snd (bumpVersion okGit defaultOptions repoWorld)))
     = [[''rev-parse'', ''--git-dir''], [''fetch''], [''switch'', ''develop''], [''pull''],
        [''add'', ''package.json''], [''commit'', ''-m'', ''build: 1.3.0''],
        [''tag'', ''v1.3.0''], [''push'', ''origin'', ''develop''],
        [''push'', ''origin'', ''--tags''], [''switch'', ''UAT''], [''pull''],
        [''pull'', ''origin'', ''develop''], [''push'', ''origin'', ''UAT''],
        [''switch'', ''develop'']]"
  by (simp add: run_eval okGit_def defaultOptions_def)

lemma failing_run:
  "fst (bumpVersion (failGit [''pull'', ''origin'', ''develop'']) twoTargets repoWorld)
     = Inl (Error (''Git command failed: git pull origin develop'' @ [newline] @ ''conflict''))
   \<and> issued (snd (bumpVersion (failGit [''pull'', ''origin'', ''develop'']) twoTargets repoWorld))
     = [([''rev-parse'', ''--git-dir''], Inr []), ([''fetch''], Inr []),
        ([''switch'', ''develop''], Inr []), ([''pull''], Inr []),
        ([''add'', ''package.json''], Inr []), ([''commit'', ''-m'', ''build: 1.3.0''], Inr []),
        ([''tag'', ''v1.3.0''], Inr []), ([''push'', ''origin'', ''develop''], Inr []),
        ([''push'', ''origin'', ''--tags''], Inr []), ([''switch'', ''UAT''], Inr []),
        ([''pull''], Inr []), ([''pull'', ''origin'', ''develop''], Inl ''conflict'')]"
  by (simp add: run_eval failGit_def twoTargets_def git_failure_def)

section \<open>Properties of the configuration\<close>

lemma default_bumpOptions:
  "bumpOptions Minor (noOptions\<lparr>opt_minor := True\<rparr>) emptyConfig repoWorld = Inr defaultOptions"
  by (simp add: bumpOptions_def resolvedMessage_def truthy_str_def noOptions_def emptyConfig_def
      config_source_def parseTargets_def orElse_def resolvedFile_def defaultOptions_def)

lemma loadConfig_repoWorld: "loadConfig repoWorld = (Inr emptyConfig, repoWorld)"
  by (simp add: loadConfig_def repoWorld_def world0_def join_eval CONFIG_FILE_def)

text \<open>
  C1. The claim: without a configuration file and without an override of the targets the
  target list is empty, the run attempts no merge, and the source branch is the branch
  that is checked out. The code does not do this: on the manifest version \<open>1.2.3\<close>, no
  configuration file and the one flag \<open>--minor\<close>, \<open>loadConfig\<close> returns the empty
  configuration, the options are resolved to the source branch \<open>develop\<close> and the target
  list \<open>UAT\<close>, and the run switches to \<open>develop\<close>, then switches to \<open>UAT\<close>, pulls,
  pulls \<open>develop\<close> into it, pushes it and switches back to \<open>develop\<close>. The function
  \<open>getCurrentBranch\<close> is not called.
\<close>

theorem default_run_merges:
  "loadConfig repoWorld = (Inr emptyConfig, repoWorld)
   \<and> opt_targets (noOptions\<lparr>opt_minor := True\<rparr>) = None
   \<and> opt_source (noOptions\<lparr>opt_minor := True\<rparr>) = None
   \<and> bumpOptions Minor (noOptions\<lparr>opt_minor := True\<rparr>) emptyConfig repoWorld
       = Inr defaultOptions
   \<and> branches defaultOptions = Some \<lparr>source = Some ''develop'', targets = Some [''UAT'']\<rparr>
   \<and> fst (bumpAction okGit (noOptions\<lparr>opt_minor := True\<rparr>) repoWorld)
       = Inr \<lparr>oldVersion = ''1.2.3'', newVersion = ''1.3.0''\<rparr>
   \<and> map fst (issued (snd (bumpAction okGit (noOptions\<lparr>opt_minor := True\<rparr>) repoWorld)))
       = [[''rev-parse'', ''--git-dir''], [''fetch''], [''switch'', ''develop''], [''pull''],
          [''add'', ''package.json''], [''commit'', ''-m'', ''build: 1.3.0''],
          [''tag'', ''v1.3.0''], [''push'', ''origin'', ''develop''],
          [''push'', ''origin'', ''--tags''], [''switch'', ''UAT''], [''pull''],
          [''pull'', ''origin'', ''develop''], [''push'', ''origin'', ''UAT''],
          [''switch'', ''develop'']]"
proof -
  let ?o = "noOptions\<lparr>opt_minor := True\<rparr>"
  have bt: "(if opt_major ?o then Some Major else if opt_minor ?o then Some Minor
             else if opt_patch ?o then Some Patch else None) = Some Minor"
    by (simp add: noOptions_def)
  have dr: "\<not> opt_dryRun ?o" by (simp add: noOptions_def)
  obtain r w' where run: "bumpVersion okGit defaultOptions repoWorld = (r, w')"
    by (cases "bumpVersion okGit defaultOptions repoWorld")
  with default_run have r: "r = Inr \<lparr>oldVersion = ''1.2.3'', newVersion = ''1.3.0''\<rparr>"
    and tr: "map fst (issued w')
       = [[''rev-parse'', ''--git-dir''], [''fetch''], [''switch'', ''develop''], [''pull''],
          [''add'', ''package.json''], [''commit'', ''-m'', ''build: 1.3.0''],
          [''tag'', ''v1.3.0''], [''push'', ''origin'', ''develop''],
          [''push'', ''origin'', ''--tags''], [''switch'', ''UAT''], [''pull''],
          [''pull'', ''origin'', ''develop''], [''push'', ''origin'', ''UAT''],
          [''switch'', ''develop'']]"
    by simp_all
  have act: "bumpAction okGit ?o repoWorld
      = (Inr \<lparr>oldVersion = ''1.2.3'', newVersion = ''1.3.0''\<rparr>,
         w'\<lparr>console := console w' @ [''Version successfully bumped from 1.2.3 to 1.3.0'']\<rparr>)"
    unfolding bumpAction_def bt
    by (simp add: await_def loadConfig_repoWorld reading_def default_bumpOptions run r dr
        console_log_def return_def)
  have o: "opt_targets ?o = None" "opt_source ?o = None"
    by (simp_all add: noOptions_def)
  have b: "branches defaultOptions = Some \<lparr>source = Some ''develop'', targets = Some [''UAT'']\<rparr>"
    by (simp add: defaultOptions_def)
  from loadConfig_repoWorld o default_bumpOptions b act tr show ?thesis
    by simp
qed

theorem default_run_merges_witness:
  "map_option targets (branches defaultOptions) \<noteq> Some (Some [])
   \<and> [''switch'', ''UAT'']
       \<in> set (map fst (issued (snd (bumpAction okGit (noOptions\<lparr>opt_minor := True\<rparr>)
                                        repoWorld))))
   \<and> [''pull'', ''origin'', ''develop'']
       \<in> set (map fst (issued (snd (bumpAction okGit (noOptions\<lparr>opt_minor := True\<rparr>)
                                        repoWorld))))"
  using default_run_merges by simp

section \<open>Properties of the manifest\<close>

lemma parse_manifest_empty:
  "JSON_parse (manifest []) = Inr (JObject [(''version'', JString [])])"
  by code_simp

lemma getCurrentVersion_truthy:
  "getCurrentVersion file w = Inr v' \<Longrightarrow> truthy v'"
  by (auto simp: getCurrentVersion_def Let_def split: option.splits sum.splits if_splits)

text \<open>
  C10. When the manifest exists and parses as an object whose \<open>version\<close> field is the
  empty string, the number 0, \<open>false\<close> or \<open>null\<close>, getCurrentVersion fails with the error
  of a missing version field; a value that it returns is truthy.
\<close>

theorem getCurrentVersion_falsy:
  "(files w (join_path (cwd w) file) = Some content
      \<and> JSON_parse content = Inr (JObject kvs)
      \<and> map_of kvs ''version'' = Some v
      \<and> (v = JString [] \<or> v = JNumber 0 \<or> v = JBool False \<or> v = JNull)
     \<longrightarrow> getCurrentVersion file w = Inl (Error ''No version field found in package.json''))
   \<and> (\<forall>x. getCurrentVersion file w = Inr x \<longrightarrow> truthy x)"
proof (intro conjI impI allI)
  assume "files w (join_path (cwd w) file) = Some content
      \<and> JSON_parse content = Inr (JObject kvs)
      \<and> map_of kvs ''version'' = Some v
      \<and> (v = JString [] \<or> v = JNumber 0 \<or> v = JBool False \<or> v = JNull)"
  then show "getCurrentVersion file w = Inl (Error ''No version field found in package.json'')"
    by (auto simp: getCurrentVersion_def version_of_def)
next
  fix x assume "getCurrentVersion file w = Inr x"
  then show "truthy x" by (rule getCurrentVersion_truthy)
qed

theorem getCurrentVersion_falsy_witness:
  "getCurrentVersion ''package.json'' (world0 [''/repo/package.json'' \<mapsto> manifest []])
     = Inl (Error ''No version field found in package.json'')
   \<and> getCurrentVersion ''package.json'' repoWorld = Inr (JString ''1.2.3'')
   \<and> truthy (JString ''1.2.3'')"
proof -
  have "getCurrentVersion ''package.json'' (world0 [''/repo/package.json'' \<mapsto> manifest []])
     = Inl (Error ''No version field found in package.json'')"
    using getCurrentVersion_falsy [of "world0 [''/repo/package.json'' \<mapsto> manifest []]"
        "''package.json''" "manifest []" "[(''version'', JString [])]" "JString []"]
    by (simp add: world0_def join_eval parse_manifest_empty)
  moreover have "getCurrentVersion ''package.json'' repoWorld = Inr (JString ''1.2.3'')"
    by (rule getCurrentVersion_manifest_123)
       (simp add: repoWorld_def world0_def join_eval)
  ultimately show ?thesis
    using getCurrentVersion_falsy [of repoWorld "''package.json''"] by simp
qed

text \<open>
  C7. The options of a run are resolved field by field, an override of the command line
  before the value of the configuration file before the default, where a string counts
  as given only when it is not empty. For the tag prefix: with the persisted value \<open>r\<close>
  and the override \<open>release-\<close> the result is \<open>release-\<close>; with a persisted value alone
  that is not empty it is that value; with neither it is \<open>v\<close>. The same order holds for
  the manifest path (default \<open>package.json\<close>) and for the creation of the tag (default
  true; here every override and every persisted value counts). For the source branch,
  the target list and the commit message an override that is given wins, and for the
  source branch and the target list the persisted value is used when no override is
  given.
\<close>

theorem config_precedence:
  assumes "bumpOptions bt options config w = Inr bo"
  shows "(opt_tagPrefix options = Some ''release-'' \<and> cfg_tagPrefix config = Some ''r''
            \<longrightarrow> tagPrefix bo = Some ''release-'')
       \<and> (opt_tagPrefix options = None \<and> cfg_tagPrefix config = Some ''r''
            \<longrightarrow> tagPrefix bo = Some ''r'')
       \<and> (opt_tagPrefix options = None \<and> cfg_tagPrefix config = None
            \<longrightarrow> tagPrefix bo = Some ''v'')
       \<and> (\<forall>x. opt_tagPrefix options = Some x \<and> x \<noteq> [] \<longrightarrow> tagPrefix bo = Some x)
       \<and> (\<forall>p. \<not> truthy_str (opt_tagPrefix options) \<and> cfg_tagPrefix config = Some p \<and> p \<noteq> []
            \<longrightarrow> tagPrefix bo = Some p)
       \<and> (\<not> truthy_str (opt_tagPrefix options) \<and> \<not> truthy_str (cfg_tagPrefix config)
            \<longrightarrow> tagPrefix bo = Some ''v'')
       \<and> (\<forall>x. opt_file options = Some x \<and> x \<noteq> [] \<longrightarrow> packageFile bo = Some x)
       \<and> (\<forall>p. \<not> truthy_str (opt_file options) \<and> cfg_packageFile config = Some p \<and> p \<noteq> []
            \<longrightarrow> packageFile bo = Some p)
       \<and> (\<not> truthy_str (opt_file options) \<and> \<not> truthy_str (cfg_packageFile config)
            \<longrightarrow> packageFile bo = Some ''package.json'')
       \<and> (\<forall>x. opt_tag options = Some x \<longrightarrow> createTag bo = Some x)
       \<and> (\<forall>p. opt_tag options = None \<and> cfg_createTag config = Some p \<longrightarrow> createTag bo = Some p)
       \<and> (opt_tag options = None \<and> cfg_createTag config = None \<longrightarrow> createTag bo = Some True)
       \<and> (\<forall>x. opt_source options = Some x \<and> x \<noteq> []
            \<longrightarrow> map_option source (branches bo) = Some (Some x))
       \<and> (\<forall>b p. \<not> truthy_str (opt_source options) \<and> cfg_branches config = Some b
                \<and> source b = Some p \<and> p \<noteq> []
            \<longrightarrow> map_option source (branches bo) = Some (Some p))
       \<and> (\<forall>s. opt_targets options = Some s \<and> s \<noteq> []
            \<longrightarrow> map_option targets (branches bo)
                = Some (Some (map trim_js (split_js CHR '','' s))))
       \<and> (\<forall>b ts. \<not> truthy_str (opt_targets options) \<and> cfg_branches config = Some b
                 \<and> targets b = Some ts
            \<longrightarrow> map_option targets (branches bo) = Some (Some ts))
       \<and> (\<forall>m. opt_message options = Some m \<and> m \<noteq> [] \<longrightarrow> commitMessage bo = Some m)"
proof -
  note f = bumpOptions_fields [OF assms]
  have t: "tagPrefix bo = Some
           (if truthy_str (opt_tagPrefix options) then the (opt_tagPrefix options)
            else if truthy_str (cfg_tagPrefix config) then the (cfg_tagPrefix config)
            else ''v'')" by (rule f)
  have p: "packageFile bo = Some (resolvedFile options config)" by (rule f)
  have c: "createTag bo = Some
           (case opt_tag options of Some t \<Rightarrow> t | None \<Rightarrow> orElse (cfg_createTag config) True)"
    by (rule f)
  have b: "branches bo = Some
           \<lparr>source = Some
              (if truthy_str (opt_source options) then the (opt_source options)
               else if truthy_str (config_source config) then the (config_source config)
               else ''develop''),
            targets = Some (orElse (parseTargets options config) [''UAT''])\<rparr>"
    by (rule f)
  have m: "resolvedMessage options config w = Inr (commitMessage bo)" by (rule f)
  have simple: "(opt_tagPrefix options = Some ''release-'' \<and> cfg_tagPrefix config = Some ''r''
            \<longrightarrow> tagPrefix bo = Some ''release-'')
       \<and> (opt_tagPrefix options = None \<and> cfg_tagPrefix config = Some ''r''
            \<longrightarrow> tagPrefix bo = Some ''r'')
       \<and> (opt_tagPrefix options = None \<and> cfg_tagPrefix config = None
            \<longrightarrow> tagPrefix bo = Some ''v'')
       \<and> (\<forall>x. opt_tagPrefix options = Some x \<and> x \<noteq> [] \<longrightarrow> tagPrefix bo = Some x)
       \<and> (\<forall>p. \<not> truthy_str (opt_tagPrefix options) \<and> cfg_tagPrefix config = Some p \<and> p \<noteq> []
            \<longrightarrow> tagPrefix bo = Some p)
       \<and> (\<not> truthy_str (opt_tagPrefix options) \<and> \<not> truthy_str (cfg_tagPrefix config)
            \<longrightarrow> tagPrefix bo = Some ''v'')
       \<and> (\<forall>x. opt_file options = Some x \<and> x \<noteq> [] \<longrightarrow> packageFile bo = Some x)
       \<and> (\<forall>p. \<not> truthy_str (opt_file options) \<and> cfg_packageFile config = Some p \<and> p \<noteq> []
            \<longrightarrow> packageFile bo = Some p)
       \<and> (\<not> truthy_str (opt_file options) \<and> \<not> truthy_str (cfg_packageFile config)
            \<longrightarrow> packageFile bo = Some ''package.json'')
       \<and> (\<forall>x. opt_tag options = Some x \<longrightarrow> createTag bo = Some x)
       \<and> (\<forall>p. opt_tag options = None \<and> cfg_createTag config = Some p \<longrightarrow> createTag bo = Some p)
       \<and> (opt_tag options = None \<and> cfg_createTag config = None \<longrightarrow> createTag bo = Some True)"
    unfolding t p c resolvedFile_def
    by (simp add: truthy_str_def orElse_def split: option.splits)
  have src1: "\<forall>x. opt_source options = Some x \<and> x \<noteq> []
            \<longrightarrow> map_option source (branches bo) = Some (Some x)"
    unfolding b by (simp add: truthy_str_def)
  have src2: "\<forall>b p. \<not> truthy_str (opt_source options) \<and> cfg_branches config = Some b
                \<and> source b = Some p \<and> p \<noteq> []
            \<longrightarrow> map_option source (branches bo) = Some (Some p)"
    unfolding b by (simp add: truthy_str_def config_source_def)
  have tg1: "\<forall>s. opt_targets options = Some s \<and> s \<noteq> []
            \<longrightarrow> map_option targets (branches bo)
                = Some (Some (map trim_js (split_js CHR '','' s)))"
    unfolding b by (simp add: truthy_str_def parseTargets_def orElse_def)
  have tg2: "\<forall>b ts. \<not> truthy_str (opt_targets options) \<and> cfg_branches config = Some b
                 \<and> targets b = Some ts
            \<longrightarrow> map_option targets (branches bo) = Some (Some ts)"
    unfolding b by (simp add: parseTargets_def orElse_def)
  have msg: "\<forall>m. opt_message options = Some m \<and> m \<noteq> [] \<longrightarrow> commitMessage bo = Some m"
    using m by (auto simp: resolvedMessage_def truthy_str_def)
  from simple src1 src2 tg1 tg2 msg show ?thesis
    apply (elim conjE)
    apply (intro conjI)
    apply assumption+
    done
qed

theorem config_precedence_witness:
  "bumpOptions Patch (noOptions\<lparr>opt_tagPrefix := Some ''release-''\<rparr>)
      (emptyConfig\<lparr>cfg_tagPrefix := Some ''r''\<rparr>) (world0 Map.empty)
     = Inr \<lparr>bumpType = Patch,
            branches = Some \<lparr>source = Some ''develop'', targets = Some [''UAT'']\<rparr>,
            commitMessage = None, skipPush = Some False, skipMerge = Some False,
            packageFile = Some ''package.json'', dryRun = Some False, createTag = Some True,
            tagPrefix = Some ''release-''\<rparr>
   \<and> map_sum id tagPrefix (bumpOptions Patch noOptions (emptyConfig\<lparr>cfg_tagPrefix := Some ''r''\<rparr>)
         (world0 Map.empty)) = Inr (Some ''r'')
   \<and> map_sum id tagPrefix (bumpOptions Patch noOptions emptyConfig (world0 Map.empty))
       = Inr (Some ''v'')
   \<and> map_sum id branches
        (bumpOptions Patch (noOptions\<lparr>opt_source := Some ''main'', opt_targets := Some ''qa, prod''\<rparr>)
           persistedBranches (world0 Map.empty))
       = Inr (Some \<lparr>source = Some ''main'', targets = Some [''qa'', ''prod'']\<rparr>)
   \<and> map_sum id branches (bumpOptions Patch noOptions persistedBranches (world0 Map.empty))
       = Inr (Some \<lparr>source = Some ''trunk'', targets = Some [''staging'']\<rparr>)"
proof -
  let ?o = "noOptions\<lparr>opt_tagPrefix := Some ''release-''\<rparr>"
  let ?c = "emptyConfig\<lparr>cfg_tagPrefix := Some ''r''\<rparr>"
  let ?ob = "noOptions\<lparr>opt_source := Some ''main'', opt_targets := Some ''qa, prod''\<rparr>"
  have 1: "bumpOptions Patch ?o ?c (world0 Map.empty)
     = Inr \<lparr>bumpType = Patch,
            branches = Some \<lparr>source = Some ''develop'', targets = Some [''UAT'']\<rparr>,
            commitMessage = None, skipPush = Some False, skipMerge = Some False,
            packageFile = Some ''package.json'', dryRun = Some False, createTag = Some True,
            tagPrefix = Some ''release-''\<rparr>"
    by (simp add: bumpOptions_def resolvedMessage_def truthy_str_def noOptions_def emptyConfig_def
        config_source_def parseTargets_def orElse_def resolvedFile_def)
  have ex: "\<exists>bo. bumpOptions Patch o' c' (world0 Map.empty) = Inr bo"
    if "opt_message o' = None" "cfg_commitMessageTemplate c' = None" for o' c'
    using that by (simp add: bumpOptions_def resolvedMessage_def truthy_str_def)
  have om: "opt_message noOptions = None" "opt_message ?ob = None"
    by (simp_all add: noOptions_def)
  have cm: "cfg_commitMessageTemplate ?c = None" "cfg_commitMessageTemplate emptyConfig = None"
    "cfg_commitMessageTemplate persistedBranches = None"
    by (simp_all add: emptyConfig_def persistedBranches_def)
  from ex [OF om(1) cm(1)] obtain b2
    where b2: "bumpOptions Patch noOptions ?c (world0 Map.empty) = Inr b2" ..
  from ex [OF om(1) cm(2)] obtain b3
    where b3: "bumpOptions Patch noOptions emptyConfig (world0 Map.empty) = Inr b3" ..
  from ex [OF om(2) cm(3)] obtain b4
    where b4: "bumpOptions Patch ?ob persistedBranches (world0 Map.empty) = Inr b4" ..
  from ex [OF om(1) cm(3)] obtain b5
    where b5: "bumpOptions Patch noOptions persistedBranches (world0 Map.empty) = Inr b5" ..
  have o: "opt_tagPrefix noOptions = None" "\<not> truthy_str (opt_source noOptions)"
    "\<not> truthy_str (opt_targets noOptions)"
    by (simp_all add: noOptions_def truthy_str_def)
  have c: "cfg_tagPrefix emptyConfig = None" by (simp add: emptyConfig_def)
  have pb: "cfg_branches persistedBranches
      = Some \<lparr>source = Some ''trunk'', targets = Some [''staging'']\<rparr>"
    by (simp add: persistedBranches_def emptyConfig_def)
  have sp: "map trim_js (split_js CHR '','' ''qa, prod'') = [''qa'', ''prod'']"
    by (simp add: split_js_def trim_js_def isWhiteSpace_def)
  from config_precedence [OF b2] o have t2: "tagPrefix b2 = Some ''r''" by simp
  from config_precedence [OF b3] o c have t3: "tagPrefix b3 = Some ''v''" by simp
  from config_precedence [OF b4] have "map_option source (branches b4) = Some (Some ''main'')"
    "map_option targets (branches b4) = Some (Some (map trim_js (split_js CHR '','' ''qa, prod'')))"
    by simp_all
  then have t4: "branches b4 = Some \<lparr>source = Some ''main'', targets = Some [''qa'', ''prod'']\<rparr>"
    unfolding sp by (cases "branches b4") auto
  from config_precedence [OF b5] o pb
  have "map_option source (branches b5) = Some (Some ''trunk'')"
    "map_option targets (branches b5) = Some (Some [''staging''])"
    by simp_all
  then have t5: "branches b5 = Some \<lparr>source = Some ''trunk'', targets = Some [''staging'']\<rparr>"
    by (cases "branches b5") auto
  from 1 b2 b3 b4 b5 t2 t3 t4 t5 show ?thesis by simp
qed

text \<open>
  An empty string is not taken: the override \<open>--tag-prefix ""\<close> over the persisted value
  \<open>r\<close> gives \<open>r\<close>, and the persisted value \<open>""\<close> alone gives \<open>v\<close>.
\<close>

theorem config_precedence_counterexample:
  "map_sum id tagPrefix
     (bumpOptions Patch (noOptions\<lparr>opt_tagPrefix := Some []\<rparr>)
        (emptyConfig\<lparr>cfg_tagPrefix := Some ''r''\<rparr>) (world0 Map.empty)) = Inr (Some ''r'')
   \<and> map_sum id tagPrefix
       (bumpOptions Patch (noOptions\<lparr>opt_tagPrefix := Some []\<rparr>)
          (emptyConfig\<lparr>cfg_tagPrefix := Some ''r''\<rparr>) (world0 Map.empty)) \<noteq> Inr (Some [])
   \<and> map_sum id tagPrefix
       (bumpOptions Patch noOptions (emptyConfig\<lparr>cfg_tagPrefix := Some []\<rparr>)
          (world0 Map.empty)) = Inr (Some ''v'')
   \<and> map_sum id tagPrefix
       (bumpOptions Patch noOptions (emptyConfig\<lparr>cfg_tagPrefix := Some []\<rparr>)
          (world0 Map.empty)) \<noteq> Inr (Some [])"
  by (simp add: bumpOptions_def resolvedMessage_def truthy_str_def noOptions_def emptyConfig_def)

section \<open>Properties of a dry run\<close>

lemma bumpVersion_dry_eval:
  assumes dry: "dryRun options = Some True"
    and g: "G [''rev-parse'', ''--git-dir''] (repo w) (files w) = (out, r1, f1)"
  shows "bumpVersion G options w =
     (fst (dry_outcome options out (cwd w) f1),
      w\<lparr>repo := r1, files := f1,
        issued := issued w @ [([''rev-parse'', ''--git-dir''], out)],
        console := console w @ snd (dry_outcome options out (cwd w) f1)\<rparr>)"
proof -
  let ?w1 = "w\<lparr>repo := r1, files := f1,
             issued := issued w @ [([''rev-parse'', ''--git-dir''], out)]\<rparr>"
  let ?file = "orElse (packageFile options) ''package.json''"
  have c: "getCurrentVersion ?file ?w1 = getCurrentVersion ?file
      \<lparr>cwd = cwd w, files = f1, repo = (), issued = [], console = [], errout = []\<rparr>"
    by (rule getCurrentVersion_cong) simp_all
  have w: "?w1\<lparr>console := console ?w1 @ []\<rparr> = ?w1" by simp
  from dry have d: "orElse (dryRun options) False" by (simp add: orElse_def)
  show ?thesis
    unfolding bumpVersion_unfold isGitRepository_eval g
    by (simp add: c d dry_outcome_def reportPlan_eval report_lines_def
        split: sum.splits json.splits)
qed

text \<open>
  C5. A run with \<open>dryRun\<close> set runs one command, the probe of the repository, and after
  it changes neither the files nor the repository: the files and the repository are
  those that the probe left. Its result and the lines that it prints are \<open>dry_outcome\<close>:
  the old and the new version when the manifest holds a version that can be bumped.
  When the probe changes nothing, a second dry run from the world that the first one
  left returns the same result, prints the same lines and again changes nothing.
\<close>

theorem dry_run_no_mutation:
  assumes dry: "dryRun options = Some True"
    and run: "bumpVersion G options w = (r, w')"
  shows "\<exists>out r1 f1.
           G [''rev-parse'', ''--git-dir''] (repo w) (files w) = (out, r1, f1)
         \<and> issued w' = issued w @ [([''rev-parse'', ''--git-dir''], out)]
         \<and> files w' = f1 \<and> repo w' = r1 \<and> cwd w' = cwd w
         \<and> (r, drop (length (console w)) (console w')) = dry_outcome options out (cwd w) f1
         \<and> (r1 = repo w \<and> f1 = files w \<longrightarrow>
              (\<exists>w''. bumpVersion G options w' = (r, w'')
                 \<and> files w'' = files w \<and> repo w'' = repo w
                 \<and> drop (length (console w')) (console w'')
                     = drop (length (console w)) (console w')))"
proof -
  obtain out r1 f1 where g: "G [''rev-parse'', ''--git-dir''] (repo w) (files w) = (out, r1, f1)"
    by (cases "G [''rev-parse'', ''--git-dir''] (repo w) (files w)")
  note e = bumpVersion_dry_eval [where G = G and w = w, OF dry g]
  from run e have r: "r = fst (dry_outcome options out (cwd w) f1)"
    and w': "w' = w\<lparr>repo := r1, files := f1,
        issued := issued w @ [([''rev-parse'', ''--git-dir''], out)],
        console := console w @ snd (dry_outcome options out (cwd w) f1)\<rparr>"
    by simp_all
  have again: "\<exists>w''. bumpVersion G options w' = (r, w'')
                 \<and> files w'' = files w \<and> repo w'' = repo w
                 \<and> drop (length (console w')) (console w'')
                     = drop (length (console w)) (console w')"
    if "r1 = repo w" "f1 = files w"
  proof -
    from that g w' have g': "G [''rev-parse'', ''--git-dir''] (repo w') (files w') = (out, r1, f1)"
      by simp
    from bumpVersion_dry_eval [where G = G and w = w', OF dry g'] that r w' show ?thesis
      by simp
  qed
  from g r w' again show ?thesis
    by (intro exI [of _ out] exI [of _ r1] exI [of _ f1]) simp
qed

theorem dry_run_no_mutation_witness:
  "fst (bumpVersion okGit (defaultOptions\<lparr>dryRun := Some True\<rparr>) repoWorld)
     = Inr \<lparr>oldVersion = ''1.2.3'', newVersion = ''1.3.0''\<rparr>
   \<and> files (snd (bumpVersion okGit (defaultOptions\<lparr>dryRun := Some True\<rparr>) repoWorld))
     = files repoWorld
   \<and> issued (snd (bumpVersion okGit (defaultOptions\<lparr>dryRun := Some True\<rparr>) repoWorld))
     = [([''rev-parse'', ''--git-dir''], Inr [])]
   \<and> console (snd (bumpVersion okGit (defaultOptions\<lparr>dryRun := Some True\<rparr>) repoWorld))
     = [''Dry run mode enabled'', ''Current version: 1.2.3'', ''New version: 1.3.0'',
        ''Source branch: develop'', ''Target branches: UAT'', ''Create tag: v1.3.0'']"
proof -
  let ?o = "defaultOptions\<lparr>dryRun := Some True\<rparr>"
  obtain r w' where run: "bumpVersion okGit ?o repoWorld = (r, w')"
    by (cases "bumpVersion okGit ?o repoWorld")
  have dry: "dryRun ?o = Some True" by simp
  have v: "getCurrentVersion ''package.json''
      \<lparr>cwd = ''/repo'', files = [''/repo/package.json'' \<mapsto> manifest ''1.2.3''], repo = (),
       issued = [], console = [], errout = []\<rparr> = Inr (JString ''1.2.3'')"
    by (rule getCurrentVersion_manifest_123) (simp add: join_eval)
  have d: "dry_outcome ?o (Inr []) ''/repo'' [''/repo/package.json'' \<mapsto> manifest ''1.2.3'']
      = (Inr \<lparr>oldVersion = ''1.2.3'', newVersion = ''1.3.0''\<rparr>,
         [''Dry run mode enabled'', ''Current version: 1.2.3'', ''New version: 1.3.0'',
          ''Source branch: develop'', ''Target branches: UAT'', ''Create tag: v1.3.0''])"
    by (simp add: dry_outcome_def defaultOptions_def orElse_def v calc_123_minor
        report_lines_def)
  from dry_run_no_mutation [OF dry run] d
  have "r = Inr \<lparr>oldVersion = ''1.2.3'', newVersion = ''1.3.0''\<rparr>
     \<and> files w' = files repoWorld
     \<and> issued w' = [([''rev-parse'', ''--git-dir''], Inr [])]
     \<and> console w' = [''Dry run mode enabled'', ''Current version: 1.2.3'',
          ''New version: 1.3.0'', ''Source branch: develop'', ''Target branches: UAT'',
          ''Create tag: v1.3.0'']"
    by (auto simp: okGit_def repoWorld_def world0_def)
  with run show ?thesis by simp
qed

section \<open>The override of the target branches\<close>

lemma length_split_acc:
  "length (split_acc sep acc s) = Suc (length (filter (\<lambda>c. c = sep) s))"
  by (induction s arbitrary: acc) auto

lemma split_acc_nonempty: "split_acc sep acc s \<noteq> []"
  by (induction s arbitrary: acc) auto

lemma last_split_acc:
  "s \<noteq> [] \<Longrightarrow> last s = sep \<Longrightarrow> last (split_acc sep acc s) = []"
proof (induction s arbitrary: acc)
  case Nil
  then show ?case by simp
next
  case (Cons c s)
  show ?case
  proof (cases s)
    case Nil
    with Cons.prems show ?thesis by simp
  next
    case (Cons d s')
    with Cons.prems Cons.IH have "\<And>a. last (split_acc sep a s) = []" by simp
    moreover have "\<And>a. split_acc sep a s \<noteq> []" by (rule split_acc_nonempty)
    ultimately show ?thesis by simp
  qed
qed

lemma trim_js_empty: "trim_js [] = []"
  by (simp add: trim_js_def)

text \<open>
  C8. An override of the target branches that is not the empty string is split at the
  commas and every element is trimmed; no element is dropped (there is one element more
  than there are commas), and an override that ends in a comma gives a last element that
  is the empty string. An override that is the empty string counts as no override: the
  targets, and all the resolved options, are those of the same command line without it.
\<close>

theorem targets_override:
  "(\<forall>s. opt_targets options = Some s \<and> s \<noteq> [] \<longrightarrow>
       parseTargets options config = Some (map trim_js (split_js CHR '','' s))
     \<and> (\<forall>bt w bo. bumpOptions bt options config w = Inr bo
            \<longrightarrow> map_option targets (branches bo)
                = Some (Some (map trim_js (split_js CHR '','' s))))
     \<and> length (map trim_js (split_js CHR '','' s))
           = Suc (length (filter (\<lambda>c. c = CHR '','') s))
     \<and> (last s = CHR '','' \<longrightarrow> last (map trim_js (split_js CHR '','' s)) = []))
   \<and> parseTargets (options\<lparr>opt_targets := Some []\<rparr>) config
       = parseTargets (options\<lparr>opt_targets := None\<rparr>) config
   \<and> (\<forall>bt w. bumpOptions bt (options\<lparr>opt_targets := Some []\<rparr>) config w
              = bumpOptions bt (options\<lparr>opt_targets := None\<rparr>) config w)"
proof (intro conjI allI impI)
  fix s assume a: "opt_targets options = Some s \<and> s \<noteq> []"
  then show p: "parseTargets options config = Some (map trim_js (split_js CHR '','' s))"
    by (simp add: parseTargets_def truthy_str_def)
  show "length (map trim_js (split_js CHR '','' s)) = Suc (length (filter (\<lambda>c. c = CHR '','') s))"
    by (simp add: split_js_def length_split_acc)
  {
    fix bt and w :: "'a world" and bo
    assume "bumpOptions bt options config w = Inr bo"
    from bumpOptions_fields(4) [OF this]
    show "map_option targets (branches bo) = Some (Some (map trim_js (split_js CHR '','' s)))"
      by (simp add: p orElse_def)
  }
  {
    assume l: "last s = CHR '',''"
    have ne: "split_js CHR '','' s \<noteq> []"
      by (simp add: split_js_def split_acc_nonempty)
    from l a ne show "last (map trim_js (split_js CHR '','' s)) = []"
      by (simp add: last_map split_js_def last_split_acc trim_js_empty)
  }
next
  show e: "parseTargets (options\<lparr>opt_targets := Some []\<rparr>) config
       = parseTargets (options\<lparr>opt_targets := None\<rparr>) config"
    by (simp add: parseTargets_def truthy_str_def)
  fix bt and w :: "'b world"
  have m: "resolvedMessage (options\<lparr>opt_targets := Some []\<rparr>) config w
      = resolvedMessage (options\<lparr>opt_targets := None\<rparr>) config w"
    unfolding resolvedMessage_def resolvedFile_def by (simp split del: if_split cong: if_cong)
  have f: "resolvedFile (options\<lparr>opt_targets := Some []\<rparr>) config
      = resolvedFile (options\<lparr>opt_targets := None\<rparr>) config"
    unfolding resolvedFile_def by (simp split del: if_split cong: if_cong)
  show "bumpOptions bt (options\<lparr>opt_targets := Some []\<rparr>) config w
              = bumpOptions bt (options\<lparr>opt_targets := None\<rparr>) config w"
    unfolding bumpOptions_def m f e
    by (cases "resolvedMessage (options\<lparr>opt_targets := None\<rparr>) config w")
      (simp_all split del: if_split cong: if_cong)
qed

theorem targets_override_witness:
  "parseTargets (noOptions\<lparr>opt_targets := Some ''main, staging ,,prod,''\<rparr>) emptyConfig
     = Some [''main'', ''staging'', [], ''prod'', []]
   \<and> parseTargets (noOptions\<lparr>opt_targets := Some []\<rparr>) persistedBranches = Some [''staging'']"
proof -
  have "opt_targets (noOptions\<lparr>opt_targets := Some ''main, staging ,,prod,''\<rparr>)
      = Some ''main, staging ,,prod,'' \<and> ''main, staging ,,prod,'' \<noteq> []" by simp
  with targets_override [of "noOptions\<lparr>opt_targets := Some ''main, staging ,,prod,''\<rparr>"
      emptyConfig, THEN conjunct1]
  have "parseTargets (noOptions\<lparr>opt_targets := Some ''main, staging ,,prod,''\<rparr>) emptyConfig
     = Some (map trim_js (split_js CHR '','' ''main, staging ,,prod,''))"
    by blast
  then have 1: "parseTargets (noOptions\<lparr>opt_targets := Some ''main, staging ,,prod,''\<rparr>)
      emptyConfig = Some [''main'', ''staging'', [], ''prod'', []]"
    by (simp add: split_js_def trim_js_def isWhiteSpace_def)
  from targets_override [of noOptions persistedBranches, THEN conjunct2, THEN conjunct1]
  have "parseTargets (noOptions\<lparr>opt_targets := Some []\<rparr>) persistedBranches
      = parseTargets (noOptions\<lparr>opt_targets := None\<rparr>) persistedBranches" .
  then have 2: "parseTargets (noOptions\<lparr>opt_targets := Some []\<rparr>) persistedBranches
      = Some [''staging'']"
    by (simp add: parseTargets_def truthy_str_def persistedBranches_def emptyConfig_def)
  from 1 2 show ?thesis by simp
qed

text \<open>
  The claim fails at the empty override string: splitting it gives the one element
  \<open>""\<close>, but the resolved targets are those of the configuration file or the default.
\<close>

theorem targets_override_counterexample:
  "map trim_js (split_js CHR '','' []) = [[]]
   \<and> orElse (parseTargets (noOptions\<lparr>opt_targets := Some []\<rparr>) emptyConfig) [''UAT'']
       = [''UAT'']
   \<and> orElse (parseTargets (noOptions\<lparr>opt_targets := Some []\<rparr>) persistedBranches) [''UAT'']
       = [''staging'']"
  by (simp add: parseTargets_def truthy_str_def emptyConfig_def persistedBranches_def orElse_def
      split_js_def trim_js_def)

section \<open>The commit message\<close>

lemma parse_templateText:
  "JSON_parse templateText
     = Inr (JObject [(''commitMessageTemplate'', JString ''build: {version}'')])"
  by code_simp

lemma loadConfig_templateWorld: "loadConfig templateWorld = (Inr templateConfig, templateWorld)"
  by (simp add: loadConfig_def templateWorld_def world0_def join_eval CONFIG_FILE_def
      parse_templateText config_of_json_def branches_field_def string_field_def bool_field_def
      templateConfig_def emptyConfig_def)

lemma replace_template: "replace_js ''build: {version}'' ''{version}'' ''1.2.3'' = ''build: 1.2.3''"
  by code_simp

lemma await_Inr: "m w = (Inr x, w') \<Longrightarrow> await m f w = f x w'"
  by (simp add: await_def)

lemma await_reading:
  "await (reading g) f w = (case g w of Inl e \<Rightarrow> (Inl e, w) | Inr x \<Rightarrow> f x w)"
  by (simp add: await_def reading_def split: sum.splits)

lemma template_bumpOptions:
  "bumpOptions Minor (noOptions\<lparr>opt_minor := True\<rparr>) templateConfig templateWorld
     = Inr (defaultOptions\<lparr>commitMessage := Some ''build: 1.2.3''\<rparr>)"
proof -
  have v: "getCurrentVersion ''package.json'' templateWorld = Inr (JString ''1.2.3'')"
    by (rule getCurrentVersion_manifest_123)
       (simp add: templateWorld_def world0_def join_eval)
  show ?thesis
    by (simp add: bumpOptions_def resolvedMessage_def truthy_str_def noOptions_def
        templateConfig_def emptyConfig_def resolvedFile_def v replace_template
        config_source_def parseTargets_def orElse_def defaultOptions_def)
qed

text \<open>
  C2. The claim: without an explicit message and with a template in the configuration,
  the commit message is the template with \<open>{version}\<close> replaced by the new version. The
  code replaces \<open>{version}\<close> by the version that the manifest holds before the bump: with
  the template \<open>build: {version}\<close>, the manifest version \<open>1.2.3\<close> and the minor kind, the
  new version is \<open>1.3.0\<close> and the commit message is \<open>build: 1.2.3\<close>.
\<close>

theorem template_uses_current_version:
  "fst (bumpAction okGit (noOptions\<lparr>opt_minor := True\<rparr>) templateWorld)
     = Inr \<lparr>oldVersion = ''1.2.3'', newVersion = ''1.3.0''\<rparr>
   \<and> map fst (issued (snd (bumpAction okGit (noOptions\<lparr>opt_minor := True\<rparr>) templateWorld)))
     = [[''rev-parse'', ''--git-dir''], [''fetch''], [''switch'', ''develop''], [''pull''],
        [''add'', ''package.json''], [''commit'', ''-m'', ''build: 1.2.3''],
        [''tag'', ''v1.3.0''], [''push'', ''origin'', ''develop''],
        [''push'', ''origin'', ''--tags''], [''switch'', ''UAT''], [''pull''],
        [''pull'', ''origin'', ''develop''], [''push'', ''origin'', ''UAT''],
        [''switch'', ''develop'']]"
proof -
  let ?o = "noOptions\<lparr>opt_minor := True\<rparr>"
  let ?bo = "defaultOptions\<lparr>commitMessage := Some ''build: 1.2.3''\<rparr>"
  let ?cmds = "[[''rev-parse'', ''--git-dir''], [''fetch''], [''switch'', ''develop''], [''pull''],
        [''add'', ''package.json''], [''commit'', ''-m'', ''build: 1.2.3''],
        [''tag'', ''v1.3.0''], [''push'', ''origin'', ''develop''],
        [''push'', ''origin'', ''--tags''], [''switch'', ''UAT''], [''pull''],
        [''pull'', ''origin'', ''develop''], [''push'', ''origin'', ''UAT''],
        [''switch'', ''develop'']]"
  have bt: "(if opt_major ?o then Some Major else if opt_minor ?o then Some Minor
             else if opt_patch ?o then Some Patch else None) = Some Minor"
    by (simp add: noOptions_def)
  have dr: "\<not> opt_dryRun ?o" by (simp add: noOptions_def)
  obtain w' where run: "bumpVersion okGit ?bo templateWorld
      = (Inr \<lparr>oldVersion = ''1.2.3'', newVersion = ''1.3.0''\<rparr>, w')"
    and tr: "map fst (issued w') = ?cmds"
    by (simp add: run_eval templateWorld_def okGit_def defaultOptions_def)
  have "bumpAction okGit ?o templateWorld
      = (Inr \<lparr>oldVersion = ''1.2.3'', newVersion = ''1.3.0''\<rparr>,
         w'\<lparr>console := console w' @ [''Version successfully bumped from 1.2.3 to 1.3.0'']\<rparr>)"
    unfolding bumpAction_def bt
    by (simp add: await_def loadConfig_templateWorld reading_def template_bumpOptions run dr
        console_log_def return_def)
  with tr show ?thesis by simp
qed

theorem template_uses_current_version_witness:
  "[''commit'', ''-m'', ''build: 1.2.3'']
     \<in> set (map fst (issued (snd (bumpAction okGit (noOptions\<lparr>opt_minor := True\<rparr>)
                                      templateWorld))))
   \<and> map_sum id newVersion (fst (bumpAction okGit (noOptions\<lparr>opt_minor := True\<rparr>)
                                      templateWorld)) = Inr ''1.3.0''"
  using template_uses_current_version by simp

section \<open>A failing command\<close>

lemma failfast_unfold:
  "failfast r tr \<Longrightarrow> i < length tr \<and> tr ! i = (cmd, Inl msg)
     \<Longrightarrow> r = Inl (Error (''Git command failed: git '' @ join_js '' '' cmd @ [newline] @ msg))
         \<and> Suc i = length tr"
  by (auto simp: failfast_def git_failure_def)

text \<open>
  C9. The commands of the loop over the target branches are run in the order of the plan
  (for each target: switch, pull, pull the source branch, push). A command that fails is
  the last command that is run, so no later target branch and no switch back to the
  source branch is attempted, and the result is the error whose message holds the
  command line \<open>git\<close> followed by the arguments. The same holds for every command of
  the workflow after the probe of the repository.
\<close>

theorem merge_failure_stops:
  "(\<forall>r w'. mergeTargets G sourceBranch sp ts w = (r, w') \<longrightarrow>
      (\<exists>tr. issued w' = issued w @ tr
         \<and> (\<exists>k \<le> length (merge_plan sourceBranch sp ts).
               map fst tr = take k (merge_plan sourceBranch sp ts))
         \<and> (\<forall>i cmd msg. i < length tr \<and> tr ! i = (cmd, Inl msg) \<longrightarrow>
               r = Inl (Error (''Git command failed: git '' @ join_js '' '' cmd
                               @ [newline] @ msg))
               \<and> Suc i = length tr)))
   \<and> (\<forall>r w'. bumpVersion G options w = (r, w') \<longrightarrow>
      (\<exists>out tr. issued w' = issued w @ ([''rev-parse'', ''--git-dir''], out) # tr
         \<and> (\<exists>nv k. k \<le> length (plan options nv) \<and> map fst tr = take k (plan options nv))
         \<and> (\<forall>i cmd msg. i < length tr \<and> tr ! i = (cmd, Inl msg) \<longrightarrow>
               r = Inl (Error (''Git command failed: git '' @ join_js '' '' cmd
                               @ [newline] @ msg))
               \<and> Suc i = length tr)))"
proof (intro conjI allI impI)
  fix r w'
  assume "mergeTargets G sourceBranch sp ts w = (r, w')"
  with follows_mergeTargets [of G sourceBranch sp ts]
  obtain tr where tr: "issued w' = issued w @ tr"
    "\<exists>k \<le> length (merge_plan sourceBranch sp ts). map fst tr = take k (merge_plan sourceBranch sp ts)"
    "failfast r tr"
    unfolding follows_def by blast
  then show "\<exists>tr. issued w' = issued w @ tr
         \<and> (\<exists>k \<le> length (merge_plan sourceBranch sp ts).
               map fst tr = take k (merge_plan sourceBranch sp ts))
         \<and> (\<forall>i cmd msg. i < length tr \<and> tr ! i = (cmd, Inl msg) \<longrightarrow>
               r = Inl (Error (''Git command failed: git '' @ join_js '' '' cmd
                               @ [newline] @ msg))
               \<and> Suc i = length tr)"
    by (intro exI [of _ tr]) (auto dest: failfast_unfold)
next
  fix r w'
  assume "bumpVersion G options w = (r, w')"
  from bumpVersion_trace [OF this]
  obtain out tr where tr: "issued w' = issued w @ ([''rev-parse'', ''--git-dir''], out) # tr"
    "failfast r tr"
    "\<exists>nv k. k \<le> length (plan options nv) \<and> map fst tr = take k (plan options nv)"
    by blast
  then show "\<exists>out tr. issued w' = issued w @ ([''rev-parse'', ''--git-dir''], out) # tr
         \<and> (\<exists>nv k. k \<le> length (plan options nv) \<and> map fst tr = take k (plan options nv))
         \<and> (\<forall>i cmd msg. i < length tr \<and> tr ! i = (cmd, Inl msg) \<longrightarrow>
               r = Inl (Error (''Git command failed: git '' @ join_js '' '' cmd
                               @ [newline] @ msg))
               \<and> Suc i = length tr)"
    by (intro exI [of _ out] exI [of _ tr]) (auto dest: failfast_unfold)
qed

theorem merge_failure_stops_witness:
  "fst (bumpVersion (failGit [''pull'', ''origin'', ''develop'']) twoTargets repoWorld)
     = Inl (Error (''Git command failed: git pull origin develop'' @ [newline] @ ''conflict''))
   \<and> map fst (issued (snd (bumpVersion (failGit [''pull'', ''origin'', ''develop''])
                              twoTargets repoWorld)))
     = [[''rev-parse'', ''--git-dir''], [''fetch''], [''switch'', ''develop''], [''pull''],
        [''add'', ''package.json''], [''commit'', ''-m'', ''build: 1.3.0''],
        [''tag'', ''v1.3.0''], [''push'', ''origin'', ''develop''],
        [''push'', ''origin'', ''--tags''], [''switch'', ''UAT''], [''pull''],
        [''pull'', ''origin'', ''develop'']]
   \<and> plan twoTargets ''1.3.0''
     = [[''fetch''], [''switch'', ''develop''], [''pull''],
        [''add'', ''package.json''], [''commit'', ''-m'', ''build: 1.3.0''],
        [''tag'', ''v1.3.0''], [''push'', ''origin'', ''develop''],
        [''push'', ''origin'', ''--tags''], [''switch'', ''UAT''], [''pull''],
        [''pull'', ''origin'', ''develop''], [''push'', ''origin'', ''UAT''],
        [''switch'', ''staging''], [''pull''], [''pull'', ''origin'', ''develop''],
        [''push'', ''origin'', ''staging''], [''switch'', ''develop'']]"
proof -
  let ?G = "failGit [''pull'', ''origin'', ''develop'']"
  obtain r w' where run: "bumpVersion ?G twoTargets repoWorld = (r, w')"
    by (cases "bumpVersion ?G twoTargets repoWorld")
  with failing_run have i: "issued w' =
       [([''rev-parse'', ''--git-dir''], Inr []), ([''fetch''], Inr []),
        ([''switch'', ''develop''], Inr []), ([''pull''], Inr []),
        ([''add'', ''package.json''], Inr []), ([''commit'', ''-m'', ''build: 1.3.0''], Inr []),
        ([''tag'', ''v1.3.0''], Inr []), ([''push'', ''origin'', ''develop''], Inr []),
        ([''push'', ''origin'', ''--tags''], Inr []), ([''switch'', ''UAT''], Inr []),
        ([''pull''], Inr []), ([''pull'', ''origin'', ''develop''], Inl ''conflict'')]"
    by simp
  from merge_failure_stops [where G = ?G and options = twoTargets and w = repoWorld,
      THEN conjunct2] run
  obtain out tr where tr: "issued w' = issued repoWorld @ ([''rev-parse'', ''--git-dir''], out) # tr"
    and ff: "\<forall>i cmd msg. i < length tr \<and> tr ! i = (cmd, Inl msg) \<longrightarrow>
               r = Inl (Error (''Git command failed: git '' @ join_js '' '' cmd
                               @ [newline] @ msg))
               \<and> Suc i = length tr"
    by blast
  from tr i have "tr =
       [([''fetch''], Inr []),
        ([''switch'', ''develop''], Inr []), ([''pull''], Inr []),
        ([''add'', ''package.json''], Inr []), ([''commit'', ''-m'', ''build: 1.3.0''], Inr []),
        ([''tag'', ''v1.3.0''], Inr []), ([''push'', ''origin'', ''develop''], Inr []),
        ([''push'', ''origin'', ''--tags''], Inr []), ([''switch'', ''UAT''], Inr []),
        ([''pull''], Inr []), ([''pull'', ''origin'', ''develop''], Inl ''conflict'')]"
    by (auto simp: repoWorld_def world0_def)
  then have "10 < length tr \<and> tr ! 10 = ([''pull'', ''origin'', ''develop''], Inl ''conflict'')"
    by simp
  with ff have "r = Inl (Error (''Git command failed: git '' @ join_js '' ''
        [''pull'', ''origin'', ''develop''] @ [newline] @ ''conflict''))"
    by blast
  then have r: "r = Inl (Error (''Git command failed: git pull origin develop'' @ [newline]
      @ ''conflict''))"
    by simp
  have p: "plan twoTargets ''1.3.0''
     = [[''fetch''], [''switch'', ''develop''], [''pull''],
        [''add'', ''package.json''], [''commit'', ''-m'', ''build: 1.3.0''],
        [''tag'', ''v1.3.0''], [''push'', ''origin'', ''develop''],
        [''push'', ''origin'', ''--tags''], [''switch'', ''UAT''], [''pull''],
        [''pull'', ''origin'', ''develop''], [''push'', ''origin'', ''UAT''],
        [''switch'', ''staging''], [''pull''], [''pull'', ''origin'', ''develop''],
        [''push'', ''origin'', ''staging''], [''switch'', ''develop'']]"
    by (simp add: plan_def twoTargets_def orElse_def steps_plan_def sourceBranchOf_def
        truthy_str_def messageOf_def merge_plan_def target_plan_def)
  from run r i p show ?thesis by simp
qed

section \<open>Writing the manifest and reading it back\<close>

subsection \<open>Properties of an object\<close>








subsection \<open>The keys that are array indices\<close>




















subsection \<open>The lexer on the text of a document\<close>





lemma appE_simps [simp]:
  "appE [] r = r" "appE (x # xs) r = consE x (appE xs r)"
  "appE (xs @ ys) r = appE xs (appE ys r)"
  "appE xs (Inr ys) = Inr (xs @ ys)"
  by (simp_all add: appE_def consE_def split: sum.splits)














lemma follow_simps [simp]:
  "follow []" "follow (CHR '','' # s)" "follow (newline # s)"
  by (simp_all add: follow_def isNumChar_def isDigit_def newline_def)




subsection \<open>The parser on the tokens of a document\<close>

declare parse_value.simps [simp del] parse_elems.simps [simp del] parse_members.simps [simp del]














subsection \<open>The documents that the parser returns\<close>











subsection \<open>The round trip\<close>







end
